theory Spec2Isabelle
  imports Complex_Main
begin

section \<open>The dictionary worker of 10ten-ja-reader: data model\<close>

text \<open>
  The embedding follows \<^verbatim>\<open>src/worker/jpdict-worker.ts\<close> and
  \<^verbatim>\<open>src/background/browser-action.ts\<close>. The worker keeps three module-level
  variables (\<^verbatim>\<open>db\<close>, \<^verbatim>\<open>currentUpdate\<close>, \<^verbatim>\<open>lastUpdateError\<close>) and the
  promise \<^verbatim>\<open>dbIsInitialized\<close>; they are the fields of the record \<open>wstate\<close>. Everything
  the worker does to the outside (messages posted to the page, calls into the dictionary
  store) is appended to the field \<open>effects\<close>, oldest first.
\<close>

datatype DataSeries = Words | Kanji | Radicals | Names

datatype DataSeriesState = Init | Empty | Ok | Unavailable

text \<open>
  A JavaScript \<^verbatim>\<open>Date\<close> is its time value in milliseconds, or the invalid date.
  The numbers that \<^verbatim>\<open>getLatestCheckTime\<close> computes with are time values, \<^verbatim>\<open>NaN\<close>
  (the number of an invalid date) and \<^verbatim>\<open>-Infinity\<close> (\<^verbatim>\<open>Math.max\<close> of nothing).
\<close>

datatype Date = Date int | InvalidDate

datatype number = Num int | NaN | NegInfinity

text \<open>
  The store's version record is opaque to the worker, which only copies it into the
  snapshot.
\<close>

datatype DataVersion = DataVersion nat nat nat

text \<open>
  The store's per-series update state, with the fields the worker and the browser action
  read: \<^verbatim>\<open>type\<close>, \<^verbatim>\<open>series\<close>, \<^verbatim>\<open>totalProgress\<close> and \<^verbatim>\<open>lastCheck\<close>. The progress
  fraction is a rational number here.
\<close>

datatype UpdateState =
    Idle "Date option"
  | Checking DataSeries "Date option"
  | Updating DataSeries rat "Date option"

fun lastCheck :: "UpdateState \<Rightarrow> Date option" where
  "lastCheck (Idle lc) = lc"
| "lastCheck (Checking _ lc) = lc"
| "lastCheck (Updating _ _ lc) = lc"

record DataSeriesInfo =
  state :: DataSeriesState
  version :: "DataVersion option"
  updateState :: UpdateState

record JpdictIdb =
  words :: DataSeriesInfo
  kanji :: DataSeriesInfo
  radicals :: DataSeriesInfo
  names :: DataSeriesInfo

text \<open>The indexing \<^verbatim>\<open>db[series]\<close>.\<close>

fun db_series :: "JpdictIdb \<Rightarrow> DataSeries \<Rightarrow> DataSeriesInfo" where
  "db_series d Words = words d"
| "db_series d Kanji = kanji d"
| "db_series d Radicals = radicals d"
| "db_series d Names = names d"

text \<open>
  Modelled from the spec: the constant \<^verbatim>\<open>allMajorDataSeries\<close> is imported from the
  package \<^verbatim>\<open>@birchill/jpdict-idb\<close>, which is not among the sources. The data model
  gives the series an update job can target (the type \<^verbatim>\<open>MajorDataSeries\<close> of
  \<^verbatim>\<open>currentUpdate.series\<close>) as kanji, names and words, the radicals being refreshed
  as a side effect of the kanji step; the constant lists these three series.
\<close>

definition allMajorDataSeries :: "DataSeries list" where
  "allMajorDataSeries = [Words, Kanji, Names]"

record js_error =
  name :: string
  message :: string

text \<open>The argument of the error callback: \<^verbatim>\<open>{ error, nextRetry?, retryCount? }\<close>.\<close>

record error_params =
  error :: js_error
  nextRetry :: "Date option"
  retryCount :: "int option"

text \<open>
  Modelled from the spec: \<^verbatim>\<open>toUpdateErrorState\<close> and its result type
  \<^verbatim>\<open>UpdateErrorState\<close> belong to the same package. The data model gives the
  record as the error information with the optional time of the next retry and the
  optional retry count; the browser action reads the field \<^verbatim>\<open>name\<close> of it.
\<close>

record UpdateErrorState =
  ue_name :: string
  ue_message :: string
  ue_nextRetry :: "Date option"
  ue_retryCount :: "int option"

definition toUpdateErrorState :: "error_params \<Rightarrow> UpdateErrorState" where
  "toUpdateErrorState p =
     \<lparr>ue_name = name (error p), ue_message = message (error p),
      ue_nextRetry = nextRetry p, ue_retryCount = retryCount p\<rparr>"

text \<open>The job slot \<^verbatim>\<open>currentUpdate\<close>.\<close>

record CurrentUpdate =
  lang :: string
  series :: DataSeries
  forceUpdate :: bool

text \<open>
  \<^verbatim>\<open>runNextUpdate\<close> and \<^verbatim>\<open>onUpdateError\<close> are closures made by one call of
  \<^verbatim>\<open>updateAllSeries\<close>; they capture its arguments \<^verbatim>\<open>lang\<close> and \<^verbatim>\<open>forceUpdate\<close> and its
  local \<^verbatim>\<open>wasForcedUpdate\<close>. The store gets them as the callbacks of
  \<^verbatim>\<open>updateWithRetry\<close>; a call of the store is recorded with this environment.
\<close>

record closure =
  c_lang :: string
  c_forceUpdate :: bool
  c_wasForcedUpdate :: bool

text \<open>The snapshot \<^verbatim>\<open>JpdictState\<close> built by \<^verbatim>\<open>doDbStateNotification\<close>.\<close>

record JpdictState =
  s_words :: "DataSeriesState \<times> DataVersion option"
  s_kanji :: "DataSeriesState \<times> DataVersion option"
  s_radicals :: "DataSeriesState \<times> DataVersion option"
  s_names :: "DataSeriesState \<times> DataVersion option"
  s_updateState :: UpdateState
  s_updateError :: "UpdateErrorState option"

text \<open>
  The three breadcrumb texts of the worker, kept as their parts: the template strings
  are not spelled out.
\<close>

datatype breadcrumb =
    Retrying string DataSeries number
  | EncounteredError DataSeries string
  | SuccessfullyUpdated DataSeries

datatype severity = Warning

text \<open>
  The messages the worker posts (built by \<^verbatim>\<open>notifyDbStateUpdated\<close>,
  \<^verbatim>\<open>notifyDbUpdateComplete\<close>, \<^verbatim>\<open>notifyError\<close> and \<^verbatim>\<open>leaveBreadcrumb\<close>).
\<close>

datatype notification =
    DbStateUpdated JpdictState
  | DbUpdateComplete "Date option"
  | NotifyError js_error "severity option"
  | LeaveBreadcrumb breadcrumb

datatype effect =
    PostMessage notification
  | CancelUpdateWithRetry DataSeries
  | ClearCachedVersionInfo
  | UpdateWithRetry DataSeries string closure
  | DestroyDb

record wstate =
  db :: "JpdictIdb option"
  dbIsInitialized :: bool
  currentUpdate :: "CurrentUpdate option"
  lastUpdateError :: "UpdateErrorState option"
  effects :: "effect list"

text \<open>
  A function that can throw returns how it ended and the state it left behind;
  assignments made before the throw stay.
\<close>

datatype outcome = Returned wstate | Threw js_error wstate

fun state_of :: "outcome \<Rightarrow> wstate" where
  "state_of (Returned s) = s"
| "state_of (Threw e s) = s"

definition do_effect :: "effect \<Rightarrow> wstate \<Rightarrow> wstate" where
  "do_effect e s = s\<lparr>effects := effects s @ [e]\<rparr>"

definition postMessage :: "notification \<Rightarrow> wstate \<Rightarrow> wstate" where
  "postMessage m s = do_effect (PostMessage m) s"

section \<open>The worker's functions\<close>

subsection \<open>getLatestCheckTime\<close>

text \<open>
  \<^verbatim>\<open>Math.max\<close> turns each argument into a number: \<^verbatim>\<open>null\<close> is 0, a date is its
  time value, an invalid date is \<^verbatim>\<open>NaN\<close>. It starts from \<^verbatim>\<open>-Infinity\<close> and a
  \<^verbatim>\<open>NaN\<close> argument makes the result \<^verbatim>\<open>NaN\<close>.
\<close>

fun to_number :: "Date option \<Rightarrow> number" where
  "to_number None = Num 0"
| "to_number (Some (Date t)) = Num t"
| "to_number (Some InvalidDate) = NaN"

fun max2 :: "number \<Rightarrow> number \<Rightarrow> number" where
  "max2 NaN _ = NaN"
| "max2 _ NaN = NaN"
| "max2 NegInfinity y = y"
| "max2 x NegInfinity = x"
| "max2 (Num a) (Num b) = Num (max a b)"

definition math_max :: "number list \<Rightarrow> number" where
  "math_max xs = foldl max2 NegInfinity xs"

fun new_Date :: "number \<Rightarrow> Date" where
  "new_Date (Num t) = Date t"
| "new_Date NaN = InvalidDate"
| "new_Date NegInfinity = InvalidDate"

definition getLatestCheckTime :: "JpdictIdb \<Rightarrow> Date option" where
  "getLatestCheckTime d =
     (let latestCheckAsNumber =
            math_max (map (\<lambda>series. to_number (lastCheck (updateState (db_series d series))))
                          allMajorDataSeries)
      in if latestCheckAsNumber \<noteq> Num 0 then Some (new_Date latestCheckAsNumber) else None)"

subsection \<open>doDbStateNotification\<close>

text \<open>
  \<open>snapshot\<close> is the object \<^verbatim>\<open>state\<close> that \<^verbatim>\<open>doDbStateNotification\<close> builds once its
  guard has passed. The \<^verbatim>\<open>postMessage\<close> of it sits in a \<^verbatim>\<open>try\<close> whose handler only
  logs; the model takes the posting to succeed.
\<close>

definition snapshot :: "JpdictIdb \<Rightarrow> wstate \<Rightarrow> JpdictState" where
  "snapshot d s =
     (let lastCheck' = getLatestCheckTime d;
          updateState' =
            (case currentUpdate s of
               Some cu \<Rightarrow> updateState (db_series d (series cu))
             | None \<Rightarrow> Idle lastCheck')
      in \<lparr>s_words = (state (words d), version (words d)),
          s_kanji = (state (kanji d), version (kanji d)),
          s_radicals = (state (radicals d), version (radicals d)),
          s_names = (state (names d), version (names d)),
          s_updateState = updateState',
          s_updateError = lastUpdateError s\<rparr>)"

definition doDbStateNotification :: "wstate \<Rightarrow> wstate" where
  "doDbStateNotification s =
     (case db s of
        None \<Rightarrow> s
      | Some d \<Rightarrow>
          if state (words d) = Init \<or> state (kanji d) = Init \<or>
             state (radicals d) = Init \<or> state (names d) = Init
          then s
          else postMessage (DbStateUpdated (snapshot d s)) s)"

subsection \<open>cancelUpdate\<close>

definition cancelUpdate :: "wstate \<Rightarrow> wstate" where
  "cancelUpdate s =
     (case currentUpdate s of
        None \<Rightarrow> s
      | Some cu \<Rightarrow> (do_effect (CancelUpdateWithRetry (series cu)) s)\<lparr>currentUpdate := None\<rparr>)"

subsection \<open>updateAllSeries and its closures\<close>

text \<open>
  The time value of a date as a number, and the subtraction
  \<^verbatim>\<open>nextRetry.getTime() - Date.now()\<close>; the clock's reading is an argument of the
  callback.
\<close>

fun getTime :: "Date \<Rightarrow> number" where
  "getTime (Date t) = Num t"
| "getTime InvalidDate = NaN"

fun minus_now :: "number \<Rightarrow> int \<Rightarrow> number" where
  "minus_now (Num t) now = Num (t - now)"
| "minus_now NaN now = NaN"
| "minus_now NegInfinity now = NegInfinity"

definition onUpdateError :: "DataSeries \<Rightarrow> error_params \<Rightarrow> int \<Rightarrow> wstate \<Rightarrow> wstate" where
  "onUpdateError series' params now s =
     (let s1 =
        (case nextRetry params of
           Some nr \<Rightarrow>
             let diffInMs = minus_now (getTime nr) now;
                 s' = postMessage
                        (LeaveBreadcrumb (Retrying (name (error params)) series' diffInMs)) s
             in if retryCount params = Some 5
                then postMessage (NotifyError (error params) (Some Warning)) s'
                else s'
         | None \<Rightarrow>
             if name (error params) \<noteq> ''AbortError'' \<and> name (error params) \<noteq> ''OfflineError''
             then postMessage (NotifyError (error params) None) s
             else postMessage
                    (LeaveBreadcrumb (EncounteredError series' (name (error params)))) s)
      in doDbStateNotification (s1\<lparr>lastUpdateError := Some (toUpdateErrorState params)\<rparr>))"

text \<open>
  The end of \<^verbatim>\<open>runNextUpdate\<close>, reached by the three branches that leave a job in the
  slot: the cache of version information is cleared when the closure's
  \<^verbatim>\<open>forceUpdate || wasForcedUpdate\<close> holds, then \<^verbatim>\<open>updateWithRetry\<close> is called for
  the series of the slot with the closure's language and callbacks.
\<close>

definition startStep :: "closure \<Rightarrow> CurrentUpdate \<Rightarrow> wstate \<Rightarrow> wstate" where
  "startStep c cu s =
     (let s1 = s\<lparr>currentUpdate := Some cu\<rparr>;
          s2 = (if c_forceUpdate c \<or> c_wasForcedUpdate c
                then do_effect ClearCachedVersionInfo s1 else s1)
      in do_effect (UpdateWithRetry (series cu) (c_lang c) c) s2)"

text \<open>
  \<^verbatim>\<open>getLatestCheckTime(db!)\<close> reads a property of \<^verbatim>\<open>undefined\<close> when there is no
  store object, which throws a \<^verbatim>\<open>TypeError\<close>.
\<close>

definition typeError :: js_error where
  "typeError = \<lparr>name = ''TypeError'', message = ''db is undefined''\<rparr>"

definition runNextUpdate :: "closure \<Rightarrow> wstate \<Rightarrow> outcome" where
  "runNextUpdate c s0 =
     (let s =
        (case currentUpdate s0 of
           Some cu \<Rightarrow>
             doDbStateNotification
               (postMessage (LeaveBreadcrumb (SuccessfullyUpdated (series cu)))
                  (s0\<lparr>lastUpdateError := None\<rparr>))
         | None \<Rightarrow> s0)
      in case currentUpdate s of
           None \<Rightarrow>
             Returned (startStep c
               \<lparr>lang = c_lang c, series = Kanji,
                forceUpdate = c_forceUpdate c \<or> c_wasForcedUpdate c\<rparr> s)
         | Some cu \<Rightarrow>
             if series cu = Kanji then Returned (startStep c (cu\<lparr>series := Names\<rparr>) s)
             else if series cu = Names then Returned (startStep c (cu\<lparr>series := Words\<rparr>) s)
             else
               (let s' = s\<lparr>currentUpdate := None\<rparr>
                in case db s' of
                     None \<Rightarrow> Threw typeError s'
                   | Some d \<Rightarrow>
                       Returned (postMessage (DbUpdateComplete (getLatestCheckTime d)) s')))"

definition updateAllSeries :: "string \<Rightarrow> bool \<Rightarrow> wstate \<Rightarrow> outcome" where
  "updateAllSeries lang' forceUpdate' s =
     (if \<not> dbIsInitialized s then Returned s
      else
        case currentUpdate s of
          None \<Rightarrow>
            runNextUpdate
              \<lparr>c_lang = lang', c_forceUpdate = forceUpdate', c_wasForcedUpdate = False\<rparr> s
        | Some cu \<Rightarrow>
            if lang cu = lang' \<and> (forceUpdate cu \<or> \<not> forceUpdate') then Returned s
            else
              runNextUpdate
                \<lparr>c_lang = lang', c_forceUpdate = forceUpdate',
                 c_wasForcedUpdate = forceUpdate cu\<rparr>
                ((cancelUpdate s)\<lparr>currentUpdate := None\<rparr>))"

subsection \<open>initDb\<close>

text \<open>
  What \<^verbatim>\<open>initDb\<close> does, in order. Whether the store of attempt \<open>k\<close> becomes ready and
  whether destroying the store before attempt \<open>k\<close> succeeds are given by the two
  functions \<open>ready\<close> and \<open>destroy_ok\<close>; attempts are counted from 0, so the number of
  the attempt is the value of \<^verbatim>\<open>retryCount\<close> when it is made.
\<close>

datatype init_action =
    DbDestroy
  | LogDestroyFailed
  | NewJpdictIdb
  | AddChangeListener
  | AwaitReady
  | LogGivingUp
  | LogRetrying nat
  | RequestIdleCallback nat

function initDb_loop ::
  "(nat \<Rightarrow> bool) \<Rightarrow> (nat \<Rightarrow> bool) \<Rightarrow> nat \<Rightarrow> bool \<Rightarrow> bool \<times> init_action list" where
  "initDb_loop ready destroy_ok retryCount' has_db =
     (let pre =
            (if has_db
             then DbDestroy # (if destroy_ok retryCount' then [] else [LogDestroyFailed])
             else [])
            @ [NewJpdictIdb, AddChangeListener, AwaitReady]
      in if ready retryCount' then (True, pre)
         else if retryCount' \<ge> 3 then (False, pre @ [LogGivingUp])
         else
           (let r = initDb_loop ready destroy_ok (retryCount' + 1) True
            in (fst r,
                pre @ [LogRetrying (retryCount' + 1), RequestIdleCallback 1000] @ snd r)))"
  by pat_completeness auto
termination
  by (relation "measure (\<lambda>(ready, destroy_ok, retryCount', has_db). 3 - retryCount')") auto

definition initDb :: "(nat \<Rightarrow> bool) \<Rightarrow> (nat \<Rightarrow> bool) \<Rightarrow> bool \<times> init_action list" where
  "initDb ready destroy_ok = initDb_loop ready destroy_ok 0 False"

text \<open>
  The worker once \<^verbatim>\<open>dbIsInitialized\<close> has settled: \<^verbatim>\<open>db\<close> holds the store object
  of the last attempt, with records \<open>d\<close>, whether that attempt succeeded or not. The
  effects are counted from this moment on.
\<close>

definition worker_start :: "(nat \<Rightarrow> bool) \<Rightarrow> (nat \<Rightarrow> bool) \<Rightarrow> JpdictIdb \<Rightarrow> wstate" where
  "worker_start ready destroy_ok d =
     \<lparr>db = Some d, dbIsInitialized = fst (initDb ready destroy_ok),
      currentUpdate = None, lastUpdateError = None, effects = []\<rparr>"

subsection \<open>The message handler and the store's calls\<close>

text \<open>
  The store rewriting its records: the object in \<^verbatim>\<open>db\<close> is the store's, and the
  variable itself is assigned by \<^verbatim>\<open>initDb\<close> only.
\<close>

definition storeWrite :: "JpdictIdb \<Rightarrow> wstate \<Rightarrow> wstate" where
  "storeWrite d s = (case db s of None \<Rightarrow> s | Some _ \<Rightarrow> s\<lparr>db := Some d\<rparr>)"

text \<open>
  What the store does while the worker waits for \<^verbatim>\<open>db.destroy()\<close>: it rewrites its
  records and calls the change listener that \<^verbatim>\<open>initDb\<close> registered, which is
  \<^verbatim>\<open>doDbStateNotification\<close>.
\<close>

datatype store_action = Rewrite JpdictIdb | NotifyChanged

fun store_acts :: "store_action list \<Rightarrow> wstate \<Rightarrow> wstate" where
  "store_acts [] s = s"
| "store_acts (Rewrite d # acts) s = store_acts acts (storeWrite d s)"
| "store_acts (NotifyChanged # acts) s = store_acts acts (doDbStateNotification s)"

text \<open>
  The requests of the page. \<open>MsgDelete acts r\<close> carries what \<^verbatim>\<open>db.destroy()\<close> does
  before it settles, in order, and what it throws, if anything; \<open>MsgOther\<close> is a message
  of a type the \<^verbatim>\<open>switch\<close> does not know. A message without data is \<open>None\<close>. Each
  handler awaits \<^verbatim>\<open>dbIsInitialized\<close> where the source does; the states here are those
  after the promise has settled, so the handler runs in one piece.
\<close>

datatype message =
    MsgQueryState
  | MsgUpdate string bool
  | MsgCancelUpdate
  | MsgDelete "store_action list" "js_error option"
  | MsgOther

definition onmessage :: "message option \<Rightarrow> wstate \<Rightarrow> wstate" where
  "onmessage data s =
     (case data of
        None \<Rightarrow> s
      | Some MsgQueryState \<Rightarrow> if dbIsInitialized s then doDbStateNotification s else s
      | Some (MsgUpdate lang' force) \<Rightarrow>
          (case updateAllSeries lang' force s of
             Returned s' \<Rightarrow> s'
           | Threw e s' \<Rightarrow> postMessage (NotifyError e None) s')
      | Some MsgCancelUpdate \<Rightarrow> cancelUpdate s
      | Some (MsgDelete acts r) \<Rightarrow>
          (case db s of
             None \<Rightarrow> s
           | Some d \<Rightarrow>
               (let s' = store_acts acts (do_effect DestroyDb s)
                in case r of
                     None \<Rightarrow> s'
                   | Some e \<Rightarrow> postMessage (NotifyError e None) s'))
      | Some MsgOther \<Rightarrow> s)"

text \<open>
  Everything that can happen to the worker: a message from the page, the store
  rewriting its records, the store calling the change listener
  \<^verbatim>\<open>doDbStateNotification\<close>, and the store calling one of the two callbacks it was
  given by \<^verbatim>\<open>updateWithRetry\<close>. An exception of the completion callback is thrown
  into the store; the worker's state stays as the callback left it. The last event is
  an uncaught error reaching \<^verbatim>\<open>self.onerror\<close>, which posts it as an error
  notification.
\<close>

datatype event =
    Message "message option"
  | StoreWrite JpdictIdb
  | ChangeListener
  | UpdateCompleteCallback closure
  | UpdateErrorCallback DataSeries error_params int
  | ErrorEvent js_error

fun step :: "event \<Rightarrow> wstate \<Rightarrow> wstate" where
  "step (Message data) s = onmessage data s"
| "step (StoreWrite d) s = storeWrite d s"
| "step ChangeListener s = doDbStateNotification s"
| "step (UpdateCompleteCallback c) s = state_of (runNextUpdate c s)"
| "step (UpdateErrorCallback series' params now) s = onUpdateError series' params now s"
| "step (ErrorEvent e) s = postMessage (NotifyError e None) s"

definition run :: "event list \<Rightarrow> wstate \<Rightarrow> wstate" where
  "run evs s = fold step evs s"

section \<open>The browser action\<close>

text \<open>
  \<^verbatim>\<open>updateBrowserAction\<close> is given the latest snapshot, in which the record of the
  words series also has the state of the flat-file fallback dictionary. The type of
  that state is declared outside the sources; the function tells \<^verbatim>\<open>'ok'\<close>,
  \<^verbatim>\<open>'loading'\<close> and \<^verbatim>\<open>'unloaded'\<close> from anything else.
\<close>

datatype FallbackState = FbUnloaded | FbLoading | FbOk | FbError

record JpdictStateWithFallback = JpdictState +
  s_fallbackState :: FallbackState

datatype ToolbarIcon = DefaultIcon | Sky

record BrowserActionState =
  enabled :: bool
  jpdictState :: JpdictStateWithFallback
  tabId :: "nat option"
  toolbarIcon :: ToolbarIcon

text \<open>The indexing \<^verbatim>\<open>jpdictState[series].state\<close>.\<close>

fun state_series :: "JpdictStateWithFallback \<Rightarrow> DataSeries \<Rightarrow> DataSeriesState" where
  "state_series js Words = fst (s_words js)"
| "state_series js Kanji = fst (s_kanji js)"
| "state_series js Radicals = fst (s_radicals js)"
| "state_series js Names = fst (s_names js)"

text \<open>
  The parts of the icon's file name, joined by \<^verbatim>\<open>'-'\<close> in the source; the progress
  part \<^verbatim>\<open>Math.round(totalProgress * 5) * 20 + 'p'\<close> keeps its number.
\<close>

datatype icon_part = P10ten | PSky | PError | PDisabled | PProgress int | PColor string

fun seriesColors :: "DataSeries \<Rightarrow> string" where
  "seriesColors Words = ''green''"
| "seriesColors Names = ''blue''"
| "seriesColors Kanji = ''purple''"
| "seriesColors Radicals = ''purple''"

text \<open>\<^verbatim>\<open>Math.round\<close> rounds to the nearest integer, a half upwards.\<close>

definition math_round :: "rat \<Rightarrow> int" where
  "math_round x = \<lfloor>x + 1 / 2\<rfloor>"

text \<open>The localized captions, by the key of the message and its arguments.\<close>

datatype tooltip =
    Command_toggle_enabled
  | Command_toggle_loading
  | Error_loading_dictionary
  | Command_toggle_disabled
  | Command_toggle_checking
  | Command_toggle_downloading DataSeries int
  | Command_toggle_update_error

text \<open>
  The calls of the browser's API, in the order the function makes them. The calls on
  \<^verbatim>\<open>browser.composeAction\<close> are made only where that object exists; those on
  \<^verbatim>\<open>browser.browserAction\<close> carry the tab. The title of the browser action is set
  through the throttle. \<^verbatim>\<open>setIcon\<close> is called with the file name, from which it
  builds the path of the image.
\<close>

datatype action_target = BrowserAction "nat option" | ComposeAction

datatype browser_call =
    SetIcon action_target "icon_part list"
  | SetBadgeText action_target string
  | SetBadgeBackgroundColor action_target string
  | SetTitle action_target tooltip

definition on_compose :: "bool \<Rightarrow> browser_call list \<Rightarrow> browser_call list" where
  "on_compose has_composeAction calls = (if has_composeAction then calls else [])"

definition setIcon :: "bool \<Rightarrow> icon_part list \<Rightarrow> nat option \<Rightarrow> browser_call list" where
  "setIcon has_composeAction iconFilename tabId' =
     [SetIcon (BrowserAction tabId') iconFilename]
     @ on_compose has_composeAction [SetIcon ComposeAction iconFilename]"

definition updateBrowserAction :: "bool \<Rightarrow> BrowserActionState \<Rightarrow> browser_call list" where
  "updateBrowserAction has_composeAction b =
     (let js = jpdictState b;
          parts0 = [P10ten] @ (if toolbarIcon b = Sky then [PSky] else []);
          (parts1, tooltip1) =
            (if enabled b then
               (let jpdictWords = fst (s_words js);
                    fallbackWords = s_fallbackState js
                in if jpdictWords = Ok \<or> fallbackWords = FbOk
                   then (parts0, Command_toggle_enabled)
                   else if jpdictWords = Init \<or> fallbackWords = FbLoading
                   then (parts0, Command_toggle_loading)
                   else if fallbackWords = FbUnloaded
                   then (parts0, Command_toggle_enabled)
                   else (parts0 @ [PError], Error_loading_dictionary))
             else (parts0 @ [PDisabled], Command_toggle_disabled));
          (parts2, tooltip2) =
            (case s_updateState js of
               Checking series' lc \<Rightarrow>
                 (parts1 @ [PProgress 0, PColor (seriesColors series')],
                  Command_toggle_checking)
             | Updating series' totalProgress lc \<Rightarrow>
                 ((if PError \<notin> set parts1
                   then parts1 @ [PProgress (math_round (totalProgress * 5) * 20),
                                  PColor (seriesColors series')]
                   else parts1),
                  Command_toggle_downloading series' (math_round (totalProgress * 100)))
             | Idle lc \<Rightarrow> (parts1, tooltip1));
          hasNotOkDatabase =
            list_ex (\<lambda>series'. state_series js series' \<noteq> Ok) allMajorDataSeries;
          showError =
            (hasNotOkDatabase \<and>
             (case s_updateError js of
                None \<Rightarrow> False
              | Some ue \<Rightarrow>
                  ue_name ue \<noteq> ''AbortError'' \<and> ue_name ue \<noteq> ''QuotaExceededError''));
          badge =
            (if showError
             then [SetBadgeText (BrowserAction (tabId b)) ''!'']
                  @ on_compose has_composeAction [SetBadgeText ComposeAction ''!'']
                  @ [SetBadgeBackgroundColor (BrowserAction (tabId b)) ''yellow'']
                  @ on_compose has_composeAction
                      [SetBadgeBackgroundColor ComposeAction ''yellow'']
             else [SetBadgeText (BrowserAction (tabId b)) []]
                  @ on_compose has_composeAction [SetBadgeText ComposeAction []]);
          tooltip3 = (if showError then Command_toggle_update_error else tooltip2)
      in setIcon has_composeAction parts2 (tabId b)
         @ badge
         @ [SetTitle (BrowserAction (tabId b)) tooltip3]
         @ on_compose has_composeAction [SetTitle ComposeAction tooltip3])"

section \<open>What the worker was seen to do\<close>

text \<open>The parts of the list of effects that the properties below speak about.\<close>

fun snapshots :: "effect list \<Rightarrow> JpdictState list" where
  "snapshots [] = []"
| "snapshots (PostMessage (DbStateUpdated st) # es) = st # snapshots es"
| "snapshots (e # es) = snapshots es"

fun completions :: "effect list \<Rightarrow> Date option list" where
  "completions [] = []"
| "completions (PostMessage (DbUpdateComplete t) # es) = t # completions es"
| "completions (e # es) = completions es"

fun errors_posted :: "effect list \<Rightarrow> (js_error \<times> severity option) list" where
  "errors_posted [] = []"
| "errors_posted (PostMessage (NotifyError e sev) # es) = (e, sev) # errors_posted es"
| "errors_posted (e # es) = errors_posted es"

fun breadcrumbs :: "effect list \<Rightarrow> breadcrumb list" where
  "breadcrumbs [] = []"
| "breadcrumbs (PostMessage (LeaveBreadcrumb b) # es) = b # breadcrumbs es"
| "breadcrumbs (e # es) = breadcrumbs es"

fun store_calls :: "effect list \<Rightarrow> effect list" where
  "store_calls [] = []"
| "store_calls (PostMessage m # es) = store_calls es"
| "store_calls (e # es) = e # store_calls es"

text \<open>No load state of a snapshot is \<open>Init\<close>.\<close>

definition resolved :: "JpdictState \<Rightarrow> bool" where
  "resolved st =
     (fst (s_words st) \<noteq> Init \<and> fst (s_kanji st) \<noteq> Init \<and>
      fst (s_radicals st) \<noteq> Init \<and> fst (s_names st) \<noteq> Init)"

text \<open>The store is absent or one of its four load states is \<open>Init\<close>.\<close>

definition unresolved_store :: "wstate \<Rightarrow> bool" where
  "unresolved_store s =
     (case db s of
        None \<Rightarrow> True
      | Some d \<Rightarrow> Init \<in> {state (words d), state (kanji d), state (radicals d), state (names d)})"

text \<open>
  A closure is forced when its \<^verbatim>\<open>forceUpdate || wasForcedUpdate\<close> holds. Read from
  the newest effect backwards, \<open>cleared_rev\<close> says that each call of
  \<^verbatim>\<open>updateWithRetry\<close> with the callbacks of a forced closure comes directly after a
  call of \<^verbatim>\<open>clearCachedVersionInfo\<close>.
\<close>

definition forced :: "closure \<Rightarrow> bool" where
  "forced c = (c_forceUpdate c \<or> c_wasForcedUpdate c)"

fun cleared_rev :: "effect list \<Rightarrow> bool" where
  "cleared_rev [] = True"
| "cleared_rev (UpdateWithRetry ser l c # es) =
     ((if forced c then (case es of ClearCachedVersionInfo # _ \<Rightarrow> True | _ \<Rightarrow> False) else True)
      \<and> cleared_rev es)"
| "cleared_rev (e # es) = cleared_rev es"

definition cleared_before_each_step :: "effect list \<Rightarrow> bool" where
  "cleared_before_each_step es = cleared_rev (rev es)"

section \<open>The claims in the words of the spec, and example states\<close>

text \<open>
  The check times that are valid dates, and the latest of those of the given series:
  the maximum where there is one, nothing where no series has a check time.
\<close>

fun check_times :: "Date option list \<Rightarrow> int list" where
  "check_times [] = []"
| "check_times (Some (Date t) # xs) = t # check_times xs"
| "check_times (x # xs) = check_times xs"

definition latest_check_of :: "DataSeries list \<Rightarrow> JpdictIdb \<Rightarrow> Date option" where
  "latest_check_of sers d =
     (let ts = check_times (map (\<lambda>ser. lastCheck (updateState (db_series d ser))) sers)
      in if ts = [] then None else Some (Date (Max (set ts))))"

text \<open>
  A store whose four series are resolved: the kanji series is being checked, the
  radicals have the latest check time of all, the names have none.
\<close>

definition example_db :: JpdictIdb where
  "example_db =
     \<lparr>words = \<lparr>state = Ok, version = Some (DataVersion 2 0 5),
                updateState = Idle (Some (Date 1000))\<rparr>,
      kanji = \<lparr>state = Ok, version = Some (DataVersion 4 0 0),
                updateState = Checking Kanji (Some (Date 3000))\<rparr>,
      radicals = \<lparr>state = Ok, version = Some (DataVersion 4 0 0),
                   updateState = Idle (Some (Date 9000))\<rparr>,
      names = \<lparr>state = Empty, version = None, updateState = Idle None\<rparr>\<rparr>"

text \<open>The same store before the names series has been resolved.\<close>

definition example_db_init :: JpdictIdb where
  "example_db_init = example_db\<lparr>names := \<lparr>state = Init, version = None, updateState = Idle None\<rparr>\<rparr>"

text \<open>A store that could not be opened.\<close>

definition example_db_unavailable :: JpdictIdb where
  "example_db_unavailable =
     \<lparr>words = \<lparr>state = Unavailable, version = None, updateState = Idle None\<rparr>,
      kanji = \<lparr>state = Unavailable, version = None, updateState = Idle None\<rparr>,
      radicals = \<lparr>state = Unavailable, version = None, updateState = Idle None\<rparr>,
      names = \<lparr>state = Unavailable, version = None, updateState = Idle None\<rparr>\<rparr>"

text \<open>The worker with no job, and with a forced job for English at the names step.\<close>

definition example_idle :: wstate where
  "example_idle =
     \<lparr>db = Some example_db, dbIsInitialized = True, currentUpdate = None,
      lastUpdateError = None, effects = []\<rparr>"

definition example_job :: CurrentUpdate where
  "example_job = \<lparr>lang = ''en'', series = Names, forceUpdate = True\<rparr>"

definition example_running :: wstate where
  "example_running = example_idle\<lparr>currentUpdate := Some example_job\<rparr>"

definition example_error :: js_error where
  "example_error = \<lparr>name = ''DownloadError'', message = ''Could not download''\<rparr>"

text \<open>
  The error callback called once for each entry of a list: the series, the argument
  and the clock's reading.
\<close>

fun retry_events :: "(DataSeries \<times> error_params \<times> int) list \<Rightarrow> event list" where
  "retry_events [] = []"
| "retry_events ((ser, p, now) # cs) = UpdateErrorCallback ser p now # retry_events cs"

text \<open>A failed download that the store is going to retry, and the fourth to sixth retry.\<close>

definition example_retry :: "int \<Rightarrow> error_params" where
  "example_retry k = \<lparr>error = example_error, nextRetry = Some (Date 5000), retryCount = Some k\<rparr>"

definition example_retries :: "(DataSeries \<times> error_params \<times> int) list" where
  "example_retries =
     [(Kanji, example_retry 4, 10), (Kanji, example_retry 5, 20), (Kanji, example_retry 6, 30)]"

text \<open>A step that was aborted, and a download that failed for good.\<close>

definition example_abort :: error_params where
  "example_abort =
     \<lparr>error = \<lparr>name = ''AbortError'', message = ''The operation was aborted''\<rparr>,
      nextRetry = None, retryCount = None\<rparr>"

definition example_failure :: error_params where
  "example_failure = \<lparr>error = example_error, nextRetry = None, retryCount = None\<rparr>"

text \<open>A check time that is missing, or a valid date after the epoch.\<close>

definition positive_check :: "Date option \<Rightarrow> bool" where
  "positive_check lc =
     (case lc of None \<Rightarrow> True | Some (Date t) \<Rightarrow> 0 < t | Some InvalidDate \<Rightarrow> False)"

text \<open>The badge texts that a list of calls sets, with their targets.\<close>

fun badge_texts :: "browser_call list \<Rightarrow> (action_target \<times> string) list" where
  "badge_texts [] = []"
| "badge_texts (SetBadgeText target text # cs) = (target, text) # badge_texts cs"
| "badge_texts (c # cs) = badge_texts cs"

text \<open>
  A snapshot for the browser action in which every series is up to date, with the
  failed download as its last error; and the same with an empty names series.
\<close>

definition example_all_ok :: BrowserActionState where
  "example_all_ok =
     \<lparr>enabled = True,
      jpdictState =
        \<lparr>s_words = (Ok, Some (DataVersion 2 0 5)), s_kanji = (Ok, Some (DataVersion 4 0 0)),
         s_radicals = (Ok, Some (DataVersion 4 0 0)), s_names = (Ok, Some (DataVersion 3 0 1)),
         s_updateState = Idle (Some (Date 3000)),
         s_updateError = Some (toUpdateErrorState example_failure),
         s_fallbackState = FbUnloaded\<rparr>,
      tabId = Some 7, toolbarIcon = DefaultIcon\<rparr>"

definition example_names_empty :: BrowserActionState where
  "example_names_empty =
     example_all_ok\<lparr>jpdictState := (jpdictState example_all_ok)\<lparr>s_names := (Empty, None)\<rparr>\<rparr>"

text \<open>
  The events in which the store calls neither the worker's listener nor its callbacks:
  the messages of the page other than the request to delete, during which the worker
  waits for \<^verbatim>\<open>db.destroy()\<close>, and the store rewriting its records.
\<close>

fun is_plain_request :: "event \<Rightarrow> bool" where
  "is_plain_request (Message (Some (MsgDelete acts r))) = False"
| "is_plain_request (Message data) = True"
| "is_plain_request (StoreWrite d) = True"
| "is_plain_request ev = False"

text \<open>The store after its data has been deleted.\<close>

definition example_db_deleted :: JpdictIdb where
  "example_db_deleted =
     \<lparr>words = \<lparr>state = Empty, version = None, updateState = Idle None\<rparr>,
      kanji = \<lparr>state = Empty, version = None, updateState = Idle None\<rparr>,
      radicals = \<lparr>state = Empty, version = None, updateState = Idle None\<rparr>,
      names = \<lparr>state = Empty, version = None, updateState = Idle None\<rparr>\<rparr>"

text \<open>The actions of \<^verbatim>\<open>initDb\<close> other than the log of a failed \<^verbatim>\<open>destroy\<close>.\<close>

definition init_trace :: "(nat \<Rightarrow> bool) \<Rightarrow> (nat \<Rightarrow> bool) \<Rightarrow> init_action list" where
  "init_trace ready destroy_ok =
     filter (\<lambda>a. a \<noteq> LogDestroyFailed) (snd (initDb ready destroy_ok))"

text \<open>The number of times \<^verbatim>\<open>initDb\<close> waits for a store to open.\<close>

definition open_attempts :: "(nat \<Rightarrow> bool) \<Rightarrow> (nat \<Rightarrow> bool) \<Rightarrow> nat" where
  "open_attempts ready destroy_ok =
     length (filter (\<lambda>a. a = AwaitReady) (snd (initDb ready destroy_ok)))"

text \<open>The calls of \<^verbatim>\<open>updateWithRetry\<close> among the effects.\<close>

fun steps_started :: "effect list \<Rightarrow> (DataSeries \<times> string \<times> closure) list" where
  "steps_started [] = []"
| "steps_started (UpdateWithRetry ser l c # es) = (ser, l, c) # steps_started es"
| "steps_started (e # es) = steps_started es"

section \<open>Proofs\<close>

subsection \<open>Effects are appended\<close>

lemma do_effect_fields [simp]:
  "db (do_effect e s) = db s"
  "dbIsInitialized (do_effect e s) = dbIsInitialized s"
  "currentUpdate (do_effect e s) = currentUpdate s"
  "lastUpdateError (do_effect e s) = lastUpdateError s"
  "effects (do_effect e s) = effects s @ [e]"
  by (simp_all add: do_effect_def)

lemma postMessage_fields [simp]:
  "db (postMessage m s) = db s"
  "dbIsInitialized (postMessage m s) = dbIsInitialized s"
  "currentUpdate (postMessage m s) = currentUpdate s"
  "lastUpdateError (postMessage m s) = lastUpdateError s"
  "effects (postMessage m s) = effects s @ [PostMessage m]"
  by (simp_all add: postMessage_def)

lemma doDbStateNotification_fields [simp]:
  "db (doDbStateNotification s) = db s"
  "dbIsInitialized (doDbStateNotification s) = dbIsInitialized s"
  "currentUpdate (doDbStateNotification s) = currentUpdate s"
  "lastUpdateError (doDbStateNotification s) = lastUpdateError s"
  by (simp_all add: doDbStateNotification_def split: option.splits)

lemma doDbStateNotification_effects:
  "effects (doDbStateNotification s) =
     effects s @ (case db s of None \<Rightarrow> []
                  | Some d \<Rightarrow> if unresolved_store s then [] else [PostMessage (DbStateUpdated (snapshot d s))])"
  by (auto simp: doDbStateNotification_def unresolved_store_def split: option.splits)

lemma snapshots_append [simp]: "snapshots (xs @ ys) = snapshots xs @ snapshots ys"
  by (induction xs rule: snapshots.induct) simp_all

lemma completions_append [simp]: "completions (xs @ ys) = completions xs @ completions ys"
  by (induction xs rule: completions.induct) simp_all

lemma errors_posted_append [simp]: "errors_posted (xs @ ys) = errors_posted xs @ errors_posted ys"
  by (induction xs rule: errors_posted.induct) simp_all

lemma breadcrumbs_append [simp]: "breadcrumbs (xs @ ys) = breadcrumbs xs @ breadcrumbs ys"
  by (induction xs rule: breadcrumbs.induct) simp_all

lemma store_calls_append [simp]: "store_calls (xs @ ys) = store_calls xs @ store_calls ys"
  by (induction xs rule: store_calls.induct) simp_all

lemma doDbStateNotification_others [simp]:
  "completions (effects (doDbStateNotification s)) = completions (effects s)"
  "errors_posted (effects (doDbStateNotification s)) = errors_posted (effects s)"
  "breadcrumbs (effects (doDbStateNotification s)) = breadcrumbs (effects s)"
  "store_calls (effects (doDbStateNotification s)) = store_calls (effects s)"
  by (simp_all add: doDbStateNotification_effects split: option.splits)

subsection \<open>A request that repeats the running job\<close>

text \<open>
  C2. A request for an update made while a job is live for the same language, when the
  running job is forced or the request is not, changes nothing: \<^verbatim>\<open>updateAllSeries\<close>
  returns with the state as it was (the job slot with its series and forced flag, and
  the list of effects, so no cancellation is issued and no step is started), and so does
  the message handler, however often the request is repeated.
\<close>

theorem requestUpdate_noop:
  assumes "currentUpdate s = Some cu" and "lang cu = l" and "forceUpdate cu \<or> \<not> f"
  shows "updateAllSeries l f s = Returned s \<and>
         onmessage (Some (MsgUpdate l f)) s = s \<and>
         run (replicate n (Message (Some (MsgUpdate l f)))) s = s"
proof -
  have a: "updateAllSeries l f s = Returned s"
    using assms by (simp add: updateAllSeries_def)
  then have b: "onmessage (Some (MsgUpdate l f)) s = s"
    by (simp add: onmessage_def)
  have "run (replicate n (Message (Some (MsgUpdate l f)))) s = s"
    by (induction n) (simp_all add: run_def b)
  with a b show ?thesis by simp
qed

theorem requestUpdate_noop_witness:
  "currentUpdate example_running = Some example_job \<and> lang example_job = ''en'' \<and>
   (forceUpdate example_job \<or> \<not> True) \<and>
   updateAllSeries ''en'' True example_running = Returned example_running \<and>
   onmessage (Some (MsgUpdate ''en'' True)) example_running = example_running \<and>
   run (replicate 3 (Message (Some (MsgUpdate ''en'' True)))) example_running = example_running"
proof -
  have h1: "currentUpdate example_running = Some example_job"
    by (simp add: example_running_def)
  have h2: "lang example_job = ''en''"
    by (simp add: example_job_def)
  have h3: "forceUpdate example_job \<or> \<not> True"
    by (simp add: example_job_def)
  show ?thesis
    using h1 h2 h3 requestUpdate_noop [OF h1 h2 h3, of 3] by simp
qed

subsection \<open>Cancelling\<close>

text \<open>
  C4. \<^verbatim>\<open>cancelUpdate\<close> changes nothing when no job is live. With a live job it calls
  the store's \<^verbatim>\<open>cancelUpdateWithRetry\<close> for the job's series and empties the slot in
  the same call. A snapshot built from any records \<open>d'\<close> of the store after that has the
  idle phase with the latest check time; in particular the snapshot that a
  \<^verbatim>\<open>querystate\<close> message right behind the \<^verbatim>\<open>cancelupdate\<close> message publishes.
\<close>

theorem cancelUpdate_clears_slot:
  assumes "currentUpdate s = Some cu" and "dbIsInitialized s" and "db s = Some d"
    and "\<not> unresolved_store (s\<lparr>db := Some d'\<rparr>)"
  shows "cancelUpdate (s\<lparr>currentUpdate := None\<rparr>) = s\<lparr>currentUpdate := None\<rparr> \<and>
         cancelUpdate s =
           s\<lparr>currentUpdate := None,
              effects := effects s @ [CancelUpdateWithRetry (series cu)]\<rparr> \<and>
         s_updateState (snapshot d' (cancelUpdate s)) = Idle (getLatestCheckTime d') \<and>
         effects (run [Message (Some MsgCancelUpdate), StoreWrite d',
                       Message (Some MsgQueryState)] s) =
           effects s @
           [CancelUpdateWithRetry (series cu),
            PostMessage (DbStateUpdated
              ((snapshot d' s)\<lparr>s_updateState := Idle (getLatestCheckTime d')\<rparr>))]"
  using assms
  by (simp add: cancelUpdate_def run_def onmessage_def storeWrite_def snapshot_def
      doDbStateNotification_effects unresolved_store_def do_effect_def)

theorem cancelUpdate_clears_slot_witness:
  "currentUpdate example_running = Some example_job \<and> dbIsInitialized example_running \<and>
   db example_running = Some example_db \<and>
   \<not> unresolved_store (example_running\<lparr>db := Some example_db\<rparr>) \<and>
   cancelUpdate (example_running\<lparr>currentUpdate := None\<rparr>) =
     example_running\<lparr>currentUpdate := None\<rparr> \<and>
   cancelUpdate example_running =
     example_running\<lparr>currentUpdate := None, effects := [CancelUpdateWithRetry Names]\<rparr> \<and>
   s_updateState (snapshot example_db (cancelUpdate example_running)) =
     Idle (Some (Date 3000)) \<and>
   effects (run [Message (Some MsgCancelUpdate), StoreWrite example_db,
                 Message (Some MsgQueryState)] example_running) =
     [CancelUpdateWithRetry Names,
      PostMessage (DbStateUpdated
        ((snapshot example_db example_running)\<lparr>s_updateState := Idle (Some (Date 3000))\<rparr>))]"
proof -
  have h1: "currentUpdate example_running = Some example_job"
    by (simp add: example_running_def)
  have h2: "dbIsInitialized example_running"
    by (simp add: example_running_def example_idle_def)
  have h3: "db example_running = Some example_db"
    by (simp add: example_running_def example_idle_def)
  have h4: "\<not> unresolved_store (example_running\<lparr>db := Some example_db\<rparr>)"
    by (simp add: unresolved_store_def example_db_def)
  have t: "getLatestCheckTime example_db = Some (Date 3000)"
    by (simp add: getLatestCheckTime_def example_db_def allMajorDataSeries_def math_max_def)
  have e: "effects example_running = []" "series example_job = Names"
    by (simp_all add: example_running_def example_idle_def example_job_def)
  note c = cancelUpdate_clears_slot [OF h1 h2 h3 h4, unfolded t e]
  from c have c4: "effects (run [Message (Some MsgCancelUpdate), StoreWrite example_db,
                 Message (Some MsgQueryState)] example_running) =
     [CancelUpdateWithRetry Names,
      PostMessage (DbStateUpdated
        ((snapshot example_db example_running)\<lparr>s_updateState := Idle (Some (Date 3000))\<rparr>))]"
    by simp
  from c have c2: "cancelUpdate example_running =
     example_running\<lparr>currentUpdate := None, effects := [CancelUpdateWithRetry Names]\<rparr>"
    by simp
  from h1 h2 h3 h4 c c2 c4 show ?thesis by blast
qed

subsection \<open>No snapshot before the store has resolved its versions\<close>

lemma resolved_snapshot:
  "db s = Some d \<Longrightarrow> \<not> unresolved_store s \<Longrightarrow> resolved (snapshot d s)"
  by (auto simp: unresolved_store_def resolved_def snapshot_def Let_def)

lemma resolved_doDbStateNotification:
  "list_all resolved (snapshots (effects s)) \<Longrightarrow>
   list_all resolved (snapshots (effects (doDbStateNotification s)))"
  by (auto simp: doDbStateNotification_effects resolved_snapshot split: option.splits)

lemma snapshots_do_effect:
  "snapshots (effects (do_effect e s)) =
     snapshots (effects s) @ (case e of PostMessage (DbStateUpdated st) \<Rightarrow> [st] | _ \<Rightarrow> [])"
  by (simp split: effect.splits notification.splits)

lemma snapshots_cancelUpdate [simp]:
  "snapshots (effects (cancelUpdate s)) = snapshots (effects s)"
  by (simp add: cancelUpdate_def split: option.splits)

lemma snapshots_startStep [simp]:
  "snapshots (effects (startStep c cu s)) = snapshots (effects s)"
  by (simp add: startStep_def Let_def)

lemma snapshots_runNextUpdate:
  "snapshots (effects (state_of (runNextUpdate c s))) =
   snapshots (effects
     (case currentUpdate s of
        None \<Rightarrow> s
      | Some cu \<Rightarrow>
          doDbStateNotification
            (postMessage (LeaveBreadcrumb (SuccessfullyUpdated (series cu)))
               (s\<lparr>lastUpdateError := None\<rparr>))))"
  by (simp add: runNextUpdate_def Let_def split: option.splits)

lemma resolved_runNextUpdate:
  "list_all resolved (snapshots (effects s)) \<Longrightarrow>
   list_all resolved (snapshots (effects (state_of (runNextUpdate c s))))"
  unfolding snapshots_runNextUpdate
  by (cases "currentUpdate s") (simp_all add: resolved_doDbStateNotification)

lemma resolved_updateAllSeries:
  "list_all resolved (snapshots (effects s)) \<Longrightarrow>
   list_all resolved (snapshots (effects (state_of (updateAllSeries l f s))))"
  using resolved_runNextUpdate [of "(cancelUpdate s)\<lparr>currentUpdate := None\<rparr>"]
        resolved_runNextUpdate [of s]
  by (simp add: updateAllSeries_def split: option.splits)

lemma snapshots_onmessage_update:
  "snapshots (effects (onmessage (Some (MsgUpdate l f)) s)) =
   snapshots (effects (state_of (updateAllSeries l f s)))"
  by (simp add: onmessage_def split: outcome.splits)

lemma store_acts_fields [simp]:
  "dbIsInitialized (store_acts acts s) = dbIsInitialized s"
  "currentUpdate (store_acts acts s) = currentUpdate s"
  "lastUpdateError (store_acts acts s) = lastUpdateError s"
  by (induction acts s rule: store_acts.induct)
     (simp_all add: storeWrite_def split: option.splits)

lemma resolved_store_acts:
  "list_all resolved (snapshots (effects s)) \<Longrightarrow>
   list_all resolved (snapshots (effects (store_acts acts s)))"
  by (induction acts s rule: store_acts.induct)
     (simp_all add: storeWrite_def resolved_doDbStateNotification split: option.splits)

lemma resolved_onmessage:
  assumes "list_all resolved (snapshots (effects s))"
  shows "list_all resolved (snapshots (effects (onmessage data s)))"
proof (cases data)
  case None
  then show ?thesis using assms by (simp add: onmessage_def)
next
  case (Some m)
  show ?thesis
  proof (cases m)
    case MsgQueryState
    then show ?thesis
      using Some assms resolved_doDbStateNotification [of s] by (simp add: onmessage_def)
  next
    case (MsgUpdate l f)
    then show ?thesis
      using Some assms resolved_updateAllSeries [of s l f]
      by (simp add: snapshots_onmessage_update)
  next
    case MsgCancelUpdate
    then show ?thesis using Some assms by (simp add: onmessage_def)
  next
    case (MsgDelete acts r)
    then show ?thesis
      using Some assms resolved_store_acts [of "do_effect DestroyDb s" acts]
      by (simp add: onmessage_def Let_def split: option.splits)
  next
    case MsgOther
    then show ?thesis using Some assms by (simp add: onmessage_def)
  qed
qed

lemma resolved_onUpdateError:
  "list_all resolved (snapshots (effects s)) \<Longrightarrow>
   list_all resolved (snapshots (effects (onUpdateError ser p now s)))"
  unfolding onUpdateError_def Let_def
  by (rule resolved_doDbStateNotification) (simp split: option.splits)

lemma resolved_step:
  "list_all resolved (snapshots (effects s)) \<Longrightarrow>
   list_all resolved (snapshots (effects (step ev s)))"
  by (cases ev)
     (simp_all add: resolved_onmessage resolved_doDbStateNotification resolved_runNextUpdate
        resolved_onUpdateError storeWrite_def split: option.splits)

lemma resolved_run:
  "list_all resolved (snapshots (effects s)) \<Longrightarrow>
   list_all resolved (snapshots (effects (run evs s)))"
  unfolding run_def by (induction evs arbitrary: s) (simp_all add: resolved_step)

text \<open>
  C5. While the store is absent or one of the four load states is \<open>Init\<close>,
  \<^verbatim>\<open>doDbStateNotification\<close> publishes nothing and leaves the state as it is. Whatever
  happens to the worker, every snapshot it publishes has four load states other than
  \<open>Init\<close>.
\<close>

theorem no_snapshot_while_uninitialized:
  "(unresolved_store s \<longrightarrow> doDbStateNotification s = s) \<and>
   (list_all resolved (snapshots (effects s)) \<longrightarrow>
    list_all resolved (snapshots (effects (run evs s))))"
  using resolved_run [of s evs]
  by (auto simp: doDbStateNotification_def unresolved_store_def split: option.splits)

theorem no_snapshot_while_uninitialized_witness:
  "unresolved_store (example_idle\<lparr>db := Some example_db_init\<rparr>) \<and>
   list_all resolved (snapshots (effects (example_idle\<lparr>db := Some example_db_init\<rparr>))) \<and>
   doDbStateNotification (example_idle\<lparr>db := Some example_db_init\<rparr>) =
     example_idle\<lparr>db := Some example_db_init\<rparr> \<and>
   snapshots (effects (run [ChangeListener, StoreWrite example_db, ChangeListener]
                         (example_idle\<lparr>db := Some example_db_init\<rparr>))) =
     [snapshot example_db example_idle] \<and>
   list_all resolved
     (snapshots (effects (run [ChangeListener, StoreWrite example_db, ChangeListener]
                            (example_idle\<lparr>db := Some example_db_init\<rparr>))))"
proof -
  let ?s = "example_idle\<lparr>db := Some example_db_init\<rparr>"
  have h1: "unresolved_store ?s"
    by (simp add: unresolved_store_def example_db_init_def)
  have h2: "list_all resolved (snapshots (effects ?s))"
    by (simp add: example_idle_def)
  have r: "snapshots (effects (run [ChangeListener, StoreWrite example_db, ChangeListener] ?s))
           = [snapshot example_db example_idle]"
    by (simp add: run_def storeWrite_def doDbStateNotification_effects unresolved_store_def
        example_db_init_def example_idle_def example_db_def snapshot_def)
  show ?thesis
    using h1 h2 r
      no_snapshot_while_uninitialized [of "example_idle\<lparr>db := Some example_db_init\<rparr>"
        "[ChangeListener, StoreWrite example_db, ChangeListener]"]
    by simp
qed

subsection \<open>The error callback\<close>

lemma onUpdateError_lastUpdateError:
  "lastUpdateError (onUpdateError ser p now s) = Some (toUpdateErrorState p)"
  by (simp add: onUpdateError_def Let_def split: option.splits)

lemma onUpdateError_fields [simp]:
  "db (onUpdateError ser p now s) = db s"
  "dbIsInitialized (onUpdateError ser p now s) = dbIsInitialized s"
  "currentUpdate (onUpdateError ser p now s) = currentUpdate s"
  by (simp_all add: onUpdateError_def Let_def split: option.splits)

lemma onUpdateError_errors_posted:
  "errors_posted (effects (onUpdateError ser p now s)) =
     errors_posted (effects s) @
     (case nextRetry p of
        Some nr \<Rightarrow> if retryCount p = Some 5 then [(error p, Some Warning)] else []
      | None \<Rightarrow>
          if name (error p) \<noteq> ''AbortError'' \<and> name (error p) \<noteq> ''OfflineError''
          then [(error p, None)] else [])"
  by (simp add: onUpdateError_def Let_def split: option.splits)

lemma onUpdateError_breadcrumbs:
  "breadcrumbs (effects (onUpdateError ser p now s)) =
     breadcrumbs (effects s) @
     (case nextRetry p of
        Some nr \<Rightarrow> [Retrying (name (error p)) ser (minus_now (getTime nr) now)]
      | None \<Rightarrow>
          if name (error p) \<noteq> ''AbortError'' \<and> name (error p) \<noteq> ''OfflineError''
          then [] else [EncounteredError ser (name (error p))])"
  by (simp add: onUpdateError_def Let_def split: option.splits)

lemma snapshot_cong:
  "currentUpdate a = currentUpdate b \<Longrightarrow>
   snapshot d a = (snapshot d b)\<lparr>s_updateError := lastUpdateError a\<rparr>"
  by (simp add: snapshot_def Let_def)

lemma unresolved_store_cong: "db a = db b \<Longrightarrow> unresolved_store a = unresolved_store b"
  by (simp add: unresolved_store_def)

lemma onUpdateError_unfold:
  "\<exists>s1. onUpdateError ser p now s =
          doDbStateNotification (s1\<lparr>lastUpdateError := Some (toUpdateErrorState p)\<rparr>) \<and>
        db s1 = db s \<and> currentUpdate s1 = currentUpdate s \<and>
        snapshots (effects s1) = snapshots (effects s)"
proof (cases "nextRetry p")
  case None
  show ?thesis
  proof (cases "name (error p) \<noteq> ''AbortError'' \<and> name (error p) \<noteq> ''OfflineError''")
    case True
    with None show ?thesis
      by (intro exI [of _ "postMessage (NotifyError (error p) None) s"])
         (simp add: onUpdateError_def)
  next
    case False
    with None show ?thesis
      by (intro exI [of _ "postMessage
            (LeaveBreadcrumb (EncounteredError ser (name (error p)))) s"])
         (auto simp: onUpdateError_def)
  qed
next
  case (Some nr)
  let ?s' = "postMessage
    (LeaveBreadcrumb (Retrying (name (error p)) ser (minus_now (getTime nr) now))) s"
  show ?thesis
  proof (cases "retryCount p = Some 5")
    case True
    with Some show ?thesis
      by (intro exI [of _ "postMessage (NotifyError (error p) (Some Warning)) ?s'"])
         (simp add: onUpdateError_def Let_def)
  next
    case False
    with Some show ?thesis
      by (intro exI [of _ ?s']) (simp add: onUpdateError_def Let_def)
  qed
qed

lemma onUpdateError_snapshots:
  "snapshots (effects (onUpdateError ser p now s)) =
     snapshots (effects s) @
     (case db s of
        None \<Rightarrow> []
      | Some d \<Rightarrow>
          if unresolved_store s then []
          else [(snapshot d s)\<lparr>s_updateError := Some (toUpdateErrorState p)\<rparr>])"
proof -
  obtain s1 where s1:
    "onUpdateError ser p now s =
       doDbStateNotification (s1\<lparr>lastUpdateError := Some (toUpdateErrorState p)\<rparr>)"
    "db s1 = db s" "currentUpdate s1 = currentUpdate s"
    "snapshots (effects s1) = snapshots (effects s)"
    using onUpdateError_unfold by blast
  let ?s2 = "s1\<lparr>lastUpdateError := Some (toUpdateErrorState p)\<rparr>"
  have u: "unresolved_store ?s2 = unresolved_store s"
    by (rule unresolved_store_cong) (simp add: s1)
  have n: "\<And>d. snapshot d ?s2 = (snapshot d s)\<lparr>s_updateError := Some (toUpdateErrorState p)\<rparr>"
    using snapshot_cong [of ?s2 s] by (simp add: s1)
  show ?thesis
    unfolding s1(1) doDbStateNotification_effects
    by (simp add: s1 u n split: option.splits)
qed

lemma run_Cons: "run (ev # evs) s = run evs (step ev s)"
  by (simp add: run_def)

lemma retries_errors_posted:
  "list_all (\<lambda>(ser, p, now). nextRetry p \<noteq> None) cs \<Longrightarrow>
   length (errors_posted (effects (run (retry_events cs) s))) =
     length (errors_posted (effects s)) +
     length (filter (\<lambda>(ser, p, now). retryCount p = Some 5) cs)"
proof (induction cs arbitrary: s)
  case Nil
  then show ?case by (simp add: run_def)
next
  case (Cons c cs)
  obtain ser p now where c: "c = (ser, p, now)" by (cases c)
  from Cons.prems c obtain nr where nr: "nextRetry p = Some nr" by auto
  from Cons.prems have "list_all (\<lambda>(ser, p, now). nextRetry p \<noteq> None) cs" by simp
  from Cons.IH [OF this, of "onUpdateError ser p now s"] show ?case
    by (simp add: c run_Cons onUpdateError_errors_posted nr)
qed

lemma count_distinct:
  "distinct ks \<Longrightarrow> length (filter (\<lambda>k. k = (a::int option)) ks) = (if a \<in> set ks then 1 else 0)"
  by (induction ks) auto

text \<open>
  C6. An error callback that carries the time of the next retry leaves a breadcrumb,
  and posts an error notification, of severity warning, exactly when its retry count
  is 5; a count of 4 or 6 gives the breadcrumb alone. Over callbacks that all announce
  a retry and whose retry counts differ from each other, as those of one counted
  sequence of retries do, one error notification is posted when the count 5 is among
  them and none otherwise.
\<close>

theorem warning_at_fifth_retry:
  assumes "nextRetry p = Some nr"
    and "list_all (\<lambda>(ser, p, now). nextRetry p \<noteq> None) cs"
    and "distinct (map (\<lambda>(ser, p, now). retryCount p) cs)"
  shows "breadcrumbs (effects (onUpdateError ser p now s)) =
           breadcrumbs (effects s) @ [Retrying (name (error p)) ser (minus_now (getTime nr) now)] \<and>
         errors_posted (effects (onUpdateError ser p now s)) =
           errors_posted (effects s) @
           (if retryCount p = Some 5 then [(error p, Some Warning)] else []) \<and>
         length (errors_posted (effects (run (retry_events cs) s))) =
           length (errors_posted (effects s)) +
           (if Some 5 \<in> set (map (\<lambda>(ser, p, now). retryCount p) cs) then 1 else 0)"
proof -
  have "length (filter (\<lambda>(ser, p, now). retryCount p = Some 5) cs) =
        length (filter (\<lambda>k. k = Some 5) (map (\<lambda>(ser, p, now). retryCount p) cs))"
    by (induction cs) auto
  also have "\<dots> = (if Some 5 \<in> set (map (\<lambda>(ser, p, now). retryCount p) cs) then 1 else 0)"
    using assms(3) by (rule count_distinct)
  finally show ?thesis
    using assms(1) retries_errors_posted [OF assms(2), of s]
    by (simp add: onUpdateError_errors_posted onUpdateError_breadcrumbs)
qed

theorem warning_at_fifth_retry_witness:
  "nextRetry (example_retry 5) = Some (Date 5000) \<and>
   list_all (\<lambda>(ser, p, now). nextRetry p \<noteq> None) example_retries \<and>
   distinct (map (\<lambda>(ser, p, now). retryCount p) example_retries) \<and>
   breadcrumbs (effects (onUpdateError Kanji (example_retry 5) 20 example_running)) =
     [Retrying ''DownloadError'' Kanji (Num 4980)] \<and>
   errors_posted (effects (onUpdateError Kanji (example_retry 5) 20 example_running)) =
     [(example_error, Some Warning)] \<and>
   length (errors_posted (effects (run (retry_events example_retries) example_running))) = 1"
proof -
  have h1: "nextRetry (example_retry 5) = Some (Date 5000)"
    by (simp add: example_retry_def)
  have h2: "list_all (\<lambda>(ser, p, now). nextRetry p \<noteq> None) example_retries"
    by (simp add: example_retries_def example_retry_def)
  have h3: "distinct (map (\<lambda>(ser, p, now). retryCount p) example_retries)"
    by (simp add: example_retries_def example_retry_def)
  have e: "effects example_running = []"
    by (simp add: example_running_def example_idle_def)
  have v: "name (error (example_retry 5)) = ''DownloadError''"
    "error (example_retry 5) = example_error" "retryCount (example_retry 5) = Some 5"
    by (simp_all add: example_retry_def example_error_def)
  have m: "Some 5 \<in> set (map (\<lambda>(ser, p, now). retryCount p) example_retries)"
    by (simp add: example_retries_def example_retry_def)
  from warning_at_fifth_retry [OF h1 h2 h3, where ser = Kanji and now = 20 and s = example_running]
  have "breadcrumbs (effects (onUpdateError Kanji (example_retry 5) 20 example_running)) =
     [Retrying ''DownloadError'' Kanji (Num 4980)] \<and>
   errors_posted (effects (onUpdateError Kanji (example_retry 5) 20 example_running)) =
     [(example_error, Some Warning)] \<and>
   length (errors_posted (effects (run (retry_events example_retries) example_running))) = 1"
    using m by (simp add: e v example_error_def)
  with h1 h2 h3 show ?thesis by blast
qed


text \<open>
  C7. Every call of the error callback records the error as \<^verbatim>\<open>lastUpdateError\<close> and
  then runs \<^verbatim>\<open>doDbStateNotification\<close>, whose snapshot, when the store's load states
  let it publish one, carries that error. A call without the time of a next retry
  leaves only a breadcrumb when the error's name is \<^verbatim>\<open>AbortError\<close> or
  \<^verbatim>\<open>OfflineError\<close>, and posts an error notification without a severity for any other
  name.
\<close>

theorem terminal_error_classified:
  "lastUpdateError (onUpdateError ser p now s) = Some (toUpdateErrorState p) \<and>
   snapshots (effects (onUpdateError ser p now s)) =
     snapshots (effects s) @
     (case db s of
        None \<Rightarrow> []
      | Some d \<Rightarrow>
          if unresolved_store s then []
          else [(snapshot d s)\<lparr>s_updateError := Some (toUpdateErrorState p)\<rparr>]) \<and>
   (nextRetry p = None \<longrightarrow>
    (if name (error p) = ''AbortError'' \<or> name (error p) = ''OfflineError''
     then breadcrumbs (effects (onUpdateError ser p now s)) =
            breadcrumbs (effects s) @ [EncounteredError ser (name (error p))] \<and>
          errors_posted (effects (onUpdateError ser p now s)) = errors_posted (effects s)
     else breadcrumbs (effects (onUpdateError ser p now s)) = breadcrumbs (effects s) \<and>
          errors_posted (effects (onUpdateError ser p now s)) =
            errors_posted (effects s) @ [(error p, None)]))"
  by (simp add: onUpdateError_lastUpdateError onUpdateError_snapshots
        onUpdateError_breadcrumbs onUpdateError_errors_posted)

theorem terminal_error_classified_witness:
  "nextRetry example_abort = None \<and> nextRetry example_failure = None \<and>
   lastUpdateError (onUpdateError Names example_abort 20 example_running) =
     Some (toUpdateErrorState example_abort) \<and>
   snapshots (effects (onUpdateError Names example_abort 20 example_running)) =
     [(snapshot example_db example_running)
        \<lparr>s_updateError := Some (toUpdateErrorState example_abort)\<rparr>] \<and>
   breadcrumbs (effects (onUpdateError Names example_abort 20 example_running)) =
     [EncounteredError Names ''AbortError''] \<and>
   errors_posted (effects (onUpdateError Names example_abort 20 example_running)) = [] \<and>
   lastUpdateError (onUpdateError Names example_failure 20 example_running) =
     Some (toUpdateErrorState example_failure) \<and>
   breadcrumbs (effects (onUpdateError Names example_failure 20 example_running)) = [] \<and>
   errors_posted (effects (onUpdateError Names example_failure 20 example_running)) =
     [(example_error, None)]"
proof -
  have h1: "nextRetry example_abort = None"
    by (simp add: example_abort_def)
  have h2: "nextRetry example_failure = None"
    by (simp add: example_failure_def)
  have e: "effects example_running = []" "db example_running = Some example_db"
    "\<not> unresolved_store example_running"
    by (simp_all add: example_running_def example_idle_def unresolved_store_def example_db_def)
  have v: "name (error example_abort) = ''AbortError''"
    "name example_error = ''DownloadError''" "error example_failure = example_error"
    by (simp_all add: example_abort_def example_failure_def example_error_def)
  from terminal_error_classified [of Names example_abort 20 example_running]
    terminal_error_classified [of Names example_failure 20 example_running]
  show ?thesis
    by (simp add: h1 h2 e v)
qed

subsection \<open>The phase of a snapshot\<close>

lemma check_times_positive:
  "positive_check a \<Longrightarrow> to_number a = (case check_times [a] of [] \<Rightarrow> Num 0 | t # _ \<Rightarrow> Num t)"
  by (cases a rule: to_number.cases) (simp_all add: positive_check_def)

lemma getLatestCheckTime_major:
  assumes "list_all (\<lambda>ser. positive_check (lastCheck (updateState (db_series d ser)))) [Words, Kanji, Names]"
  shows "getLatestCheckTime d = latest_check_of [Words, Kanji, Names] d"
proof -
  define a where "a = lastCheck (updateState (words d))"
  define b where "b = lastCheck (updateState (kanji d))"
  define c where "c = lastCheck (updateState (names d))"
  have p: "positive_check a" "positive_check b" "positive_check c"
    using assms by (simp_all add: a_def b_def c_def)
  have "(let m = math_max [to_number a, to_number b, to_number c]
         in if m \<noteq> Num 0 then Some (new_Date m) else None) =
        (let ts = check_times [a, b, c] in if ts = [] then None else Some (Date (Max (set ts))))"
    using p
    by (cases a rule: to_number.cases; cases b rule: to_number.cases; cases c rule: to_number.cases)
       (auto simp: positive_check_def math_max_def Let_def max_def)
  then show ?thesis
    by (simp add: getLatestCheckTime_def latest_check_of_def allMajorDataSeries_def a_def b_def c_def)
qed

text \<open>
  C8, as amended. A snapshot that is published while no job is live has the idle
  phase with the latest check time of the three major series words, kanji and names
  (the radicals are not looked at), for check times that are valid dates after the
  epoch: their maximum, and nothing when none of the three has a check time. While a
  job is live the phase is the update state that the store reports for the job's
  series.
\<close>

theorem idle_phase_latest_major_check:
  assumes "db s = Some d" and "\<not> unresolved_store s"
    and "list_all (\<lambda>ser. positive_check (lastCheck (updateState (db_series d ser)))) [Words, Kanji, Names]"
  shows "snapshots (effects (doDbStateNotification s)) = snapshots (effects s) @ [snapshot d s] \<and>
         s_updateState (snapshot d s) =
           (case currentUpdate s of
              None \<Rightarrow> Idle (latest_check_of [Words, Kanji, Names] d)
            | Some cu \<Rightarrow> updateState (db_series d (series cu)))"
  using assms(1,2) getLatestCheckTime_major [OF assms(3)]
  by (simp add: doDbStateNotification_effects snapshot_def Let_def split: option.splits)

theorem idle_phase_latest_major_check_witness:
  "db example_idle = Some example_db \<and> \<not> unresolved_store example_idle \<and>
   list_all (\<lambda>ser. positive_check (lastCheck (updateState (db_series example_db ser))))
     [Words, Kanji, Names] \<and>
   snapshots (effects (doDbStateNotification example_idle)) =
     [snapshot example_db example_idle] \<and>
   s_updateState (snapshot example_db example_idle) = Idle (Some (Date 3000)) \<and>
   snapshots (effects (doDbStateNotification
       (example_idle\<lparr>currentUpdate := Some (example_job\<lparr>series := Kanji\<rparr>)\<rparr>))) =
     [snapshot example_db (example_idle\<lparr>currentUpdate := Some (example_job\<lparr>series := Kanji\<rparr>)\<rparr>)] \<and>
   s_updateState
     (snapshot example_db (example_idle\<lparr>currentUpdate := Some (example_job\<lparr>series := Kanji\<rparr>)\<rparr>)) =
     Checking Kanji (Some (Date 3000))"
proof -
  let ?r = "example_idle\<lparr>currentUpdate := Some (example_job\<lparr>series := Kanji\<rparr>)\<rparr>"
  have h1: "db example_idle = Some example_db"
    by (simp add: example_idle_def)
  have h2: "\<not> unresolved_store example_idle"
    by (simp add: unresolved_store_def example_idle_def example_db_def)
  have h3: "list_all (\<lambda>ser. positive_check (lastCheck (updateState (db_series example_db ser))))
     [Words, Kanji, Names]"
    by (simp add: positive_check_def example_db_def)
  have g1: "db ?r = Some example_db"
    by (simp add: example_idle_def)
  have g2: "\<not> unresolved_store ?r"
    by (simp add: unresolved_store_def example_idle_def example_db_def)
  have l: "latest_check_of [Words, Kanji, Names] example_db = Some (Date 3000)"
    by (simp add: latest_check_of_def example_db_def)
  have e: "effects example_idle = []" "currentUpdate example_idle = None"
    by (simp_all add: example_idle_def)
  have n: "updateState (kanji example_db) = Checking Kanji (Some (Date 3000))"
    by (simp add: example_db_def)
  from idle_phase_latest_major_check [OF h1 h2 h3] idle_phase_latest_major_check [OF g1 g2 h3]
  have "snapshots (effects (doDbStateNotification example_idle)) =
     [snapshot example_db example_idle] \<and>
   s_updateState (snapshot example_db example_idle) = Idle (Some (Date 3000)) \<and>
   snapshots (effects (doDbStateNotification ?r)) = [snapshot example_db ?r] \<and>
   s_updateState (snapshot example_db ?r) = Checking Kanji (Some (Date 3000))"
    by (simp add: l e n)
  with h1 h2 h3 show ?thesis by blast
qed

text \<open>
  C8 as stated takes the maximum over all four series. In the example store the
  radicals were checked last, at 9000; the snapshot published while no job is live
  has the idle phase with 3000, the check time of the kanji series.
\<close>

theorem idle_phase_ignores_radicals:
  "snapshots (effects (step ChangeListener example_idle)) = [snapshot example_db example_idle] \<and>
   currentUpdate example_idle = None \<and>
   s_updateState (snapshot example_db example_idle) = Idle (Some (Date 3000)) \<and>
   latest_check_of [Words, Kanji, Radicals, Names] example_db = Some (Date 9000) \<and>
   s_updateState (snapshot example_db example_idle) \<noteq>
     Idle (latest_check_of [Words, Kanji, Radicals, Names] example_db)"
  by (simp add: doDbStateNotification_effects unresolved_store_def example_idle_def
      example_db_def snapshot_def getLatestCheckTime_def allMajorDataSeries_def math_max_def
      latest_check_of_def)

subsection \<open>The error badge\<close>

lemma badge_texts_append [simp]: "badge_texts (xs @ ys) = badge_texts xs @ badge_texts ys"
  by (induction xs rule: badge_texts.induct) simp_all

text \<open>
  C10. \<^verbatim>\<open>updateBrowserAction\<close> sets the badge text \<^verbatim>\<open>'!'\<close> exactly when one of the
  major series words, kanji and names has a state other than \<^verbatim>\<open>'ok'\<close> and the
  snapshot has an update error whose name is neither \<^verbatim>\<open>AbortError\<close> nor
  \<^verbatim>\<open>QuotaExceededError\<close>; otherwise it sets the empty badge text. So when the three
  major series are all \<^verbatim>\<open>'ok'\<close> the badge text is cleared, whatever the last update
  error.
\<close>

theorem error_badge_needs_not_ok_database:
  "(let js = jpdictState b;
        not_ok = (fst (s_words js) \<noteq> Ok \<or> fst (s_kanji js) \<noteq> Ok \<or> fst (s_names js) \<noteq> Ok);
        err = (case s_updateError js of
                 None \<Rightarrow> False
               | Some ue \<Rightarrow> ue_name ue \<noteq> ''AbortError'' \<and> ue_name ue \<noteq> ''QuotaExceededError'')
    in badge_texts (updateBrowserAction has_composeAction b) =
         map (\<lambda>target. (target, if not_ok \<and> err then ''!'' else []))
           (BrowserAction (tabId b) # (if has_composeAction then [ComposeAction] else []))) \<and>
   (fst (s_words (jpdictState b)) = Ok \<and> fst (s_kanji (jpdictState b)) = Ok \<and>
    fst (s_names (jpdictState b)) = Ok \<longrightarrow>
    badge_texts (updateBrowserAction has_composeAction b) =
      map (\<lambda>target. (target, []))
        (BrowserAction (tabId b) # (if has_composeAction then [ComposeAction] else [])))"
  by (simp add: updateBrowserAction_def Let_def setIcon_def on_compose_def allMajorDataSeries_def
      split: prod.splits)

theorem error_badge_needs_not_ok_database_witness:
  "fst (s_words (jpdictState example_all_ok)) = Ok \<and>
   fst (s_kanji (jpdictState example_all_ok)) = Ok \<and>
   fst (s_names (jpdictState example_all_ok)) = Ok \<and>
   s_updateError (jpdictState example_all_ok) = Some (toUpdateErrorState example_failure) \<and>
   ue_name (toUpdateErrorState example_failure) = ''DownloadError'' \<and>
   badge_texts (updateBrowserAction True example_all_ok) =
     [(BrowserAction (Some 7), []), (ComposeAction, [])] \<and>
   badge_texts (updateBrowserAction False example_names_empty) =
     [(BrowserAction (Some 7), ''!'')]"
proof -
  have h: "fst (s_words (jpdictState example_all_ok)) = Ok"
    "fst (s_kanji (jpdictState example_all_ok)) = Ok"
    "fst (s_names (jpdictState example_all_ok)) = Ok"
    "s_updateError (jpdictState example_all_ok) = Some (toUpdateErrorState example_failure)"
    "ue_name (toUpdateErrorState example_failure) = ''DownloadError''"
    by (simp_all add: example_all_ok_def toUpdateErrorState_def example_failure_def
        example_error_def)
  have g: "fst (s_names (jpdictState example_names_empty)) = Empty"
    "s_updateError (jpdictState example_names_empty) = Some (toUpdateErrorState example_failure)"
    "tabId example_names_empty = Some 7" "tabId example_all_ok = Some 7"
    by (simp_all add: example_names_empty_def example_all_ok_def)
  from error_badge_needs_not_ok_database [of example_all_ok True]
    error_badge_needs_not_ok_database [of example_names_empty False]
  have "badge_texts (updateBrowserAction True example_all_ok) =
     [(BrowserAction (Some 7), []), (ComposeAction, [])] \<and>
   badge_texts (updateBrowserAction False example_names_empty) =
     [(BrowserAction (Some 7), ''!'')]"
    by (simp add: h g Let_def)
  with h show ?thesis by blast
qed

subsection \<open>Opening the store\<close>

declare initDb_loop.simps [simp del]

lemma initDb_loop_last:
  "initDb_loop ready destroy_ok 3 True =
     (ready 3,
      DbDestroy # (if destroy_ok 3 then [] else [LogDestroyFailed]) @
      [NewJpdictIdb, AddChangeListener, AwaitReady] @ (if ready 3 then [] else [LogGivingUp]))"
  by (subst initDb_loop.simps) simp

lemma initDb_loop_first:
  "initDb_loop ready destroy_ok 0 False =
     (if ready 0 then (True, [NewJpdictIdb, AddChangeListener, AwaitReady])
      else (fst (initDb_loop ready destroy_ok 1 True),
            [NewJpdictIdb, AddChangeListener, AwaitReady,
             LogRetrying 1, RequestIdleCallback 1000] @
            snd (initDb_loop ready destroy_ok 1 True)))"
  by (subst initDb_loop.simps) (simp add: Let_def)

lemma initDb_loop_second:
  "initDb_loop ready destroy_ok (Suc 0) True =
     (if ready 1
      then (True, DbDestroy # (if destroy_ok 1 then [] else [LogDestroyFailed]) @
                  [NewJpdictIdb, AddChangeListener, AwaitReady])
      else (fst (initDb_loop ready destroy_ok 2 True),
            DbDestroy # (if destroy_ok 1 then [] else [LogDestroyFailed]) @
            [NewJpdictIdb, AddChangeListener, AwaitReady,
             LogRetrying 2, RequestIdleCallback 1000] @
            snd (initDb_loop ready destroy_ok 2 True)))"
  by (subst initDb_loop.simps) (simp add: Let_def numeral_2_eq_2)

lemma initDb_loop_third:
  "initDb_loop ready destroy_ok 2 True =
     (if ready 2
      then (True, DbDestroy # (if destroy_ok 2 then [] else [LogDestroyFailed]) @
                  [NewJpdictIdb, AddChangeListener, AwaitReady])
      else (fst (initDb_loop ready destroy_ok 3 True),
            DbDestroy # (if destroy_ok 2 then [] else [LogDestroyFailed]) @
            [NewJpdictIdb, AddChangeListener, AwaitReady,
             LogRetrying 3, RequestIdleCallback 1000] @
            snd (initDb_loop ready destroy_ok 3 True)))"
  by (subst initDb_loop.simps) (simp add: Let_def)

lemmas initDb_unfold =
  initDb_def initDb_loop_first initDb_loop_second initDb_loop_third initDb_loop_last

lemma initDb_result:
  "fst (initDb ready destroy_ok) = (ready 0 \<or> ready 1 \<or> ready 2 \<or> ready 3)"
  by (simp add: initDb_unfold)

lemma init_trace_cases:
  "init_trace ready destroy_ok =
     [NewJpdictIdb, AddChangeListener, AwaitReady] @
     (if ready 0 then []
      else [LogRetrying 1, RequestIdleCallback 1000,
            DbDestroy, NewJpdictIdb, AddChangeListener, AwaitReady] @
     (if ready 1 then []
      else [LogRetrying 2, RequestIdleCallback 1000,
            DbDestroy, NewJpdictIdb, AddChangeListener, AwaitReady] @
     (if ready 2 then []
      else [LogRetrying 3, RequestIdleCallback 1000,
            DbDestroy, NewJpdictIdb, AddChangeListener, AwaitReady] @
     (if ready 3 then [] else [LogGivingUp]))))"
  by (simp add: init_trace_def initDb_unfold)

lemma open_attempts_le: "open_attempts ready destroy_ok \<le> 4"
  by (simp add: open_attempts_def initDb_unfold)

lemma steps_started_append [simp]:
  "steps_started (xs @ ys) = steps_started xs @ steps_started ys"
  by (induction xs rule: steps_started.induct) simp_all

lemma uninitialized_request:
  assumes "\<not> dbIsInitialized s" and "currentUpdate s = None" and "is_plain_request ev"
  shows "\<not> dbIsInitialized (step ev s) \<and> currentUpdate (step ev s) = None \<and>
         snapshots (effects (step ev s)) = snapshots (effects s) \<and>
         steps_started (effects (step ev s)) = steps_started (effects s)"
proof (cases ev)
  case (Message data)
  then show ?thesis
    using assms
    by (auto simp: onmessage_def updateAllSeries_def cancelUpdate_def
        split: option.splits message.splits)
next
  case (StoreWrite d)
  then show ?thesis using assms by (simp add: storeWrite_def split: option.splits)
qed (use assms in simp_all)

lemma uninitialized_requests:
  "\<not> dbIsInitialized s \<Longrightarrow> currentUpdate s = None \<Longrightarrow> list_all is_plain_request evs \<Longrightarrow>
   \<not> dbIsInitialized (run evs s) \<and> currentUpdate (run evs s) = None \<and>
   snapshots (effects (run evs s)) = snapshots (effects s) \<and>
   steps_started (effects (run evs s)) = steps_started (effects s)"
proof (induction evs arbitrary: s)
  case Nil
  then show ?case by (simp add: run_def)
next
  case (Cons ev evs)
  from Cons.prems have r: "is_plain_request ev" "list_all is_plain_request evs" by simp_all
  note u = uninitialized_request [OF Cons.prems(1,2) r(1)]
  from u have a: "\<not> dbIsInitialized (step ev s)" and b: "currentUpdate (step ev s) = None"
    by simp_all
  from Cons.IH [OF a b r(2)] u show ?case
    by (simp add: run_def)
qed

lemma steps_started_store_acts [simp]:
  "steps_started (effects (store_acts acts s)) = steps_started (effects s)"
  by (induction acts s rule: store_acts.induct)
     (simp_all add: storeWrite_def doDbStateNotification_effects split: option.splits)

text \<open>
  C9, as amended. Whatever the outcomes \<open>ready'\<close> of the attempts, \<^verbatim>\<open>initDb\<close> waits for
  a store to open at most 4 times, and each attempt after the first comes after a wait
  for an idle callback with a timeout of 1000 and the destruction of the store of the
  attempt before. When all four attempts fail, \<^verbatim>\<open>dbIsInitialized\<close> is false; a
  request for an update then leaves the state as it is, and no sequence of requests
  for an update, for the state or to cancel, with the store rewriting its records in
  between, starts a job, starts a step or publishes a snapshot. A request to delete
  starts no job and no step either, but the store's change listener is still the one
  that \<^verbatim>\<open>initDb\<close> registered: when the store rewrites its records so that no load
  state is \<open>Init\<close> and calls the listener, while it is destroyed or at any other
  moment, a snapshot is published.
\<close>

theorem store_opening_gives_up:
  assumes "list_all (\<lambda>k. \<not> ready k) [0, 1, 2, 3]" and "list_all is_plain_request evs"
  shows "open_attempts ready' destroy_ok \<le> 4 \<and>
    init_trace ready' destroy_ok =
      [NewJpdictIdb, AddChangeListener, AwaitReady] @
      (if ready' 0 then []
       else [LogRetrying 1, RequestIdleCallback 1000,
             DbDestroy, NewJpdictIdb, AddChangeListener, AwaitReady] @
      (if ready' 1 then []
       else [LogRetrying 2, RequestIdleCallback 1000,
             DbDestroy, NewJpdictIdb, AddChangeListener, AwaitReady] @
      (if ready' 2 then []
       else [LogRetrying 3, RequestIdleCallback 1000,
             DbDestroy, NewJpdictIdb, AddChangeListener, AwaitReady] @
      (if ready' 3 then [] else [LogGivingUp])))) \<and>
    open_attempts ready destroy_ok = 4 \<and>
    \<not> dbIsInitialized (worker_start ready destroy_ok d) \<and>
    onmessage (Some (MsgUpdate l f)) (worker_start ready destroy_ok d) =
      worker_start ready destroy_ok d \<and>
    currentUpdate (run evs (worker_start ready destroy_ok d)) = None \<and>
    snapshots (effects (run evs (worker_start ready destroy_ok d))) = [] \<and>
    steps_started (effects (run evs (worker_start ready destroy_ok d))) = [] \<and>
    currentUpdate (onmessage (Some (MsgDelete acts r)) (worker_start ready destroy_ok d)) =
      None \<and>
    steps_started
      (effects (onmessage (Some (MsgDelete acts r)) (worker_start ready destroy_ok d))) = [] \<and>
    (\<not> unresolved_store ((worker_start ready destroy_ok d)\<lparr>db := Some d'\<rparr>) \<longrightarrow>
     snapshots (effects (onmessage (Some (MsgDelete [Rewrite d', NotifyChanged] r))
                           (worker_start ready destroy_ok d))) =
       [snapshot d' (worker_start ready destroy_ok d)] \<and>
     snapshots (effects (run [StoreWrite d', ChangeListener] (worker_start ready destroy_ok d))) =
       [snapshot d' (worker_start ready destroy_ok d)])"
proof -
  let ?s = "worker_start ready destroy_ok d"
  have n: "\<not> ready 0" "\<not> ready 1" "\<not> ready 2" "\<not> ready 3"
    using assms(1) by simp_all
  have a4: "open_attempts ready destroy_ok = 4"
    using n by (simp add: open_attempts_def initDb_unfold)
  have i: "\<not> dbIsInitialized ?s"
    using n by (simp add: worker_start_def initDb_result)
  have c: "currentUpdate ?s = None" "effects ?s = []" "db ?s = Some d"
    "lastUpdateError ?s = None"
    by (simp_all add: worker_start_def)
  have u: "onmessage (Some (MsgUpdate l f)) ?s = ?s"
    using i by (simp add: onmessage_def updateAllSeries_def)
  have del: "currentUpdate (onmessage (Some (MsgDelete acts r)) ?s) = None \<and>
      steps_started (effects (onmessage (Some (MsgDelete acts r)) ?s)) = []"
    by (simp add: onmessage_def Let_def c split: option.splits)
  have pub: "\<not> unresolved_store (?s\<lparr>db := Some d'\<rparr>) \<longrightarrow>
     snapshots (effects (onmessage (Some (MsgDelete [Rewrite d', NotifyChanged] r)) ?s)) =
       [snapshot d' ?s] \<and>
     snapshots (effects (run [StoreWrite d', ChangeListener] ?s)) = [snapshot d' ?s]"
    by (simp add: onmessage_def Let_def c storeWrite_def doDbStateNotification_effects
        unresolved_store_def snapshot_def run_def split: option.splits)
  from uninitialized_requests [OF i c(1) assms(2)] a4 i u del pub
    open_attempts_le [of ready' destroy_ok] init_trace_cases [of ready' destroy_ok]
  show ?thesis by (simp add: c(2))
qed

theorem store_opening_gives_up_witness:
  "list_all (\<lambda>k. \<not> (\<lambda>k. False) k) [0, 1, 2, 3 :: nat] \<and>
   list_all is_plain_request
     [Message (Some (MsgUpdate ''en'' True)), Message (Some MsgQueryState),
      StoreWrite example_db, Message (Some MsgQueryState), Message (Some MsgCancelUpdate)] \<and>
   \<not> unresolved_store
       ((worker_start (\<lambda>k. False) (\<lambda>k. True) example_db_unavailable)
          \<lparr>db := Some example_db_deleted\<rparr>) \<and>
   open_attempts (\<lambda>k. k = 2) (\<lambda>k. True) = 3 \<and>
   init_trace (\<lambda>k. k = 2) (\<lambda>k. True) =
     [NewJpdictIdb, AddChangeListener, AwaitReady,
      LogRetrying 1, RequestIdleCallback 1000,
      DbDestroy, NewJpdictIdb, AddChangeListener, AwaitReady,
      LogRetrying 2, RequestIdleCallback 1000,
      DbDestroy, NewJpdictIdb, AddChangeListener, AwaitReady] \<and>
   open_attempts (\<lambda>k. False) (\<lambda>k. True) = 4 \<and>
   \<not> dbIsInitialized (worker_start (\<lambda>k. False) (\<lambda>k. True) example_db_unavailable) \<and>
   onmessage (Some (MsgUpdate ''en'' True))
       (worker_start (\<lambda>k. False) (\<lambda>k. True) example_db_unavailable) =
     worker_start (\<lambda>k. False) (\<lambda>k. True) example_db_unavailable \<and>
   snapshots (effects (run
     [Message (Some (MsgUpdate ''en'' True)), Message (Some MsgQueryState),
      StoreWrite example_db, Message (Some MsgQueryState), Message (Some MsgCancelUpdate)]
     (worker_start (\<lambda>k. False) (\<lambda>k. True) example_db_unavailable))) = [] \<and>
   snapshots (effects (onmessage
     (Some (MsgDelete [Rewrite example_db_deleted, NotifyChanged] None))
     (worker_start (\<lambda>k. False) (\<lambda>k. True) example_db_unavailable))) =
     [\<lparr>s_words = (Empty, None), s_kanji = (Empty, None), s_radicals = (Empty, None),
       s_names = (Empty, None), s_updateState = Idle None, s_updateError = None\<rparr>]"
proof -
  let ?evs = "[Message (Some (MsgUpdate ''en'' True)), Message (Some MsgQueryState),
      StoreWrite example_db, Message (Some MsgQueryState), Message (Some MsgCancelUpdate)]"
  let ?s = "worker_start (\<lambda>k. False) (\<lambda>k. True) example_db_unavailable"
  have h1: "list_all (\<lambda>k. \<not> (\<lambda>k. False) k) [0, 1, 2, 3 :: nat]"
    by simp
  have h2: "list_all is_plain_request ?evs"
    by simp
  have h3: "\<not> unresolved_store (?s\<lparr>db := Some example_db_deleted\<rparr>)"
    by (simp add: unresolved_store_def example_db_deleted_def)
  have o: "open_attempts (\<lambda>k. k = 2) (\<lambda>k. True) = 3"
    by (simp add: open_attempts_def initDb_unfold)
  have v: "snapshot example_db_deleted ?s =
      \<lparr>s_words = (Empty, None), s_kanji = (Empty, None), s_radicals = (Empty, None),
       s_names = (Empty, None), s_updateState = Idle None, s_updateError = None\<rparr>"
    by (simp add: snapshot_def worker_start_def example_db_deleted_def getLatestCheckTime_def
        allMajorDataSeries_def math_max_def)
  from store_opening_gives_up [OF h1 h2, where ready' = "\<lambda>k. k = 2" and destroy_ok = "\<lambda>k. True"
      and d = example_db_unavailable and l = "''en''" and f = True
      and d' = example_db_deleted and r = None and acts = "[]"] h3
  have "init_trace (\<lambda>k. k = 2) (\<lambda>k. True) =
     [NewJpdictIdb, AddChangeListener, AwaitReady,
      LogRetrying 1, RequestIdleCallback 1000,
      DbDestroy, NewJpdictIdb, AddChangeListener, AwaitReady,
      LogRetrying 2, RequestIdleCallback 1000,
      DbDestroy, NewJpdictIdb, AddChangeListener, AwaitReady] \<and>
   open_attempts (\<lambda>k. False) (\<lambda>k. True) = 4 \<and>
   \<not> dbIsInitialized ?s \<and>
   onmessage (Some (MsgUpdate ''en'' True)) ?s = ?s \<and>
   snapshots (effects (run ?evs ?s)) = [] \<and>
   snapshots (effects (onmessage
     (Some (MsgDelete [Rewrite example_db_deleted, NotifyChanged] None)) ?s)) =
     [\<lparr>s_words = (Empty, None), s_kanji = (Empty, None), s_radicals = (Empty, None),
       s_names = (Empty, None), s_updateState = Idle None, s_updateError = None\<rparr>]"
    by (simp add: v)
  with h1 h2 h3 o show ?thesis by blast
qed

text \<open>
  C9 as stated has no snapshot published at all after four failed attempts. The
  store object of the last attempt stays in \<^verbatim>\<open>db\<close> with
  \<^verbatim>\<open>doDbStateNotification\<close> as its change listener, and the listener does not look
  at \<^verbatim>\<open>dbIsInitialized\<close>: when the store calls it with the four load states
  \<open>Unavailable\<close>, a snapshot is published.
\<close>

theorem failed_store_still_notifies:
  "open_attempts (\<lambda>k. False) (\<lambda>k. True) = 4 \<and>
   fst (initDb (\<lambda>k. False) (\<lambda>k. True)) = False \<and>
   \<not> dbIsInitialized (worker_start (\<lambda>k. False) (\<lambda>k. True) example_db_unavailable) \<and>
   effects (run [ChangeListener] (worker_start (\<lambda>k. False) (\<lambda>k. True) example_db_unavailable)) =
     [PostMessage (DbStateUpdated
        \<lparr>s_words = (Unavailable, None), s_kanji = (Unavailable, None),
         s_radicals = (Unavailable, None), s_names = (Unavailable, None),
         s_updateState = Idle None, s_updateError = None\<rparr>)] \<and>
   snapshots (effects (run [ChangeListener]
     (worker_start (\<lambda>k. False) (\<lambda>k. True) example_db_unavailable))) \<noteq> []"
  by (simp add: open_attempts_def initDb_unfold worker_start_def run_def
      doDbStateNotification_effects unresolved_store_def example_db_unavailable_def
      snapshot_def getLatestCheckTime_def allMajorDataSeries_def math_max_def)

subsection \<open>The steps of a cycle\<close>

lemma startStep_fields [simp]:
  "db (startStep c cu s) = db s"
  "dbIsInitialized (startStep c cu s) = dbIsInitialized s"
  "currentUpdate (startStep c cu s) = Some cu"
  "lastUpdateError (startStep c cu s) = lastUpdateError s"
  by (simp_all add: startStep_def Let_def)

lemma startStep_effects:
  "effects (startStep c cu s) =
     effects s @ (if forced c then [ClearCachedVersionInfo] else []) @
     [UpdateWithRetry (series cu) (c_lang c) c]"
  by (simp add: startStep_def Let_def forced_def)

lemma cancelUpdate_fields [simp]:
  "db (cancelUpdate s) = db s"
  "dbIsInitialized (cancelUpdate s) = dbIsInitialized s"
  "currentUpdate (cancelUpdate s) = None"
  "lastUpdateError (cancelUpdate s) = lastUpdateError s"
  by (simp_all add: cancelUpdate_def split: option.splits)

text \<open>The state in which \<^verbatim>\<open>runNextUpdate\<close> goes on after it has reported a finished step.\<close>

lemma runNextUpdate_start:
  "currentUpdate s = None \<Longrightarrow>
   runNextUpdate c s =
     Returned (startStep c \<lparr>lang = c_lang c, series = Kanji, forceUpdate = forced c\<rparr> s)"
  by (simp add: runNextUpdate_def forced_def)

lemma runNextUpdate_advance:
  "currentUpdate s = Some cu \<Longrightarrow>
   runNextUpdate c s =
     (let s' = doDbStateNotification
                 (postMessage (LeaveBreadcrumb (SuccessfullyUpdated (series cu)))
                    (s\<lparr>lastUpdateError := None\<rparr>))
      in if series cu = Kanji then Returned (startStep c (cu\<lparr>series := Names\<rparr>) s')
         else if series cu = Names then Returned (startStep c (cu\<lparr>series := Words\<rparr>) s')
         else (case db s of
                 None \<Rightarrow> Threw typeError (s'\<lparr>currentUpdate := None\<rparr>)
               | Some d \<Rightarrow>
                   Returned (postMessage (DbUpdateComplete (getLatestCheckTime d))
                     (s'\<lparr>currentUpdate := None\<rparr>))))"
  by (simp add: runNextUpdate_def Let_def)

lemma updateAllSeries_accepted:
  assumes "dbIsInitialized s"
    and "case currentUpdate s of None \<Rightarrow> True
         | Some cu \<Rightarrow> \<not> (lang cu = l \<and> (forceUpdate cu \<or> \<not> f))"
  shows "updateAllSeries l f s =
     (let c = \<lparr>c_lang = l, c_forceUpdate = f,
               c_wasForcedUpdate =
                 (case currentUpdate s of None \<Rightarrow> False | Some cu \<Rightarrow> forceUpdate cu)\<rparr>
      in Returned (startStep c \<lparr>lang = l, series = Kanji, forceUpdate = forced c\<rparr>
                     (cancelUpdate s)))"
proof (cases "currentUpdate s")
  case None
  then show ?thesis
    using assms by (simp add: updateAllSeries_def runNextUpdate_start cancelUpdate_def Let_def)
next
  case (Some cu)
  have eq: "(cancelUpdate s)\<lparr>currentUpdate := None\<rparr> = cancelUpdate s"
    by (simp add: cancelUpdate_def Some)
  show ?thesis
    using assms Some by (auto simp: updateAllSeries_def runNextUpdate_start Let_def eq)
qed

lemma steps_started_doDbStateNotification [simp]:
  "steps_started (effects (doDbStateNotification s)) = steps_started (effects s)"
  by (simp add: doDbStateNotification_effects split: option.splits)

lemma steps_started_cancelUpdate [simp]:
  "steps_started (effects (cancelUpdate s)) = steps_started (effects s)"
  "completions (effects (cancelUpdate s)) = completions (effects s)"
  by (simp_all add: cancelUpdate_def split: option.splits)

lemma startStep_seen [simp]:
  "steps_started (effects (startStep c cu s)) =
     steps_started (effects s) @ [(series cu, c_lang c, c)]"
  "completions (effects (startStep c cu s)) = completions (effects s)"
  by (simp_all add: startStep_effects)

lemma storeWrite_fields [simp]:
  "dbIsInitialized (storeWrite d s) = dbIsInitialized s"
  "currentUpdate (storeWrite d s) = currentUpdate s"
  "lastUpdateError (storeWrite d s) = lastUpdateError s"
  "effects (storeWrite d s) = effects s"
  "db s = Some d0 \<Longrightarrow> db (storeWrite d s) = Some d"
  by (simp_all add: storeWrite_def split: option.splits)




subsection \<open>A forced cycle clears the cached version information\<close>

lemma cleared_snoc [simp]:
  "cleared_before_each_step (es @ [PostMessage m]) = cleared_before_each_step es"
  "cleared_before_each_step (es @ [CancelUpdateWithRetry ser]) = cleared_before_each_step es"
  "cleared_before_each_step (es @ [ClearCachedVersionInfo]) = cleared_before_each_step es"
  "cleared_before_each_step (es @ [DestroyDb]) = cleared_before_each_step es"
  "cleared_before_each_step (es @ [ClearCachedVersionInfo, UpdateWithRetry ser l c]) =
     cleared_before_each_step es"
  "\<not> forced c \<Longrightarrow>
   cleared_before_each_step (es @ [UpdateWithRetry ser l c]) = cleared_before_each_step es"
  by (simp_all add: cleared_before_each_step_def)

lemma cleared_doDbStateNotification [simp]:
  "cleared_before_each_step (effects (doDbStateNotification s)) =
   cleared_before_each_step (effects s)"
  by (simp add: doDbStateNotification_effects split: option.splits)

lemma cleared_cancelUpdate [simp]:
  "cleared_before_each_step (effects (cancelUpdate s)) = cleared_before_each_step (effects s)"
  by (simp add: cancelUpdate_def split: option.splits)

lemma cleared_startStep [simp]:
  "cleared_before_each_step (effects (startStep c cu s)) = cleared_before_each_step (effects s)"
  by (simp add: startStep_effects)

lemma cleared_runNextUpdate:
  "cleared_before_each_step (effects (state_of (runNextUpdate c s))) =
   cleared_before_each_step (effects s)"
  by (cases "currentUpdate s")
     (simp_all add: runNextUpdate_start runNextUpdate_advance Let_def split: option.splits)

lemma cleared_updateAllSeries:
  "cleared_before_each_step (effects (state_of (updateAllSeries l f s))) =
   cleared_before_each_step (effects s)"
  by (simp add: updateAllSeries_def cleared_runNextUpdate split: option.splits)

lemma cleared_store_acts:
  "cleared_before_each_step (effects (store_acts acts s)) =
   cleared_before_each_step (effects s)"
  by (induction acts s rule: store_acts.induct)
     (simp_all add: storeWrite_def split: option.splits)

lemma cleared_onmessage:
  "cleared_before_each_step (effects (onmessage data s)) = cleared_before_each_step (effects s)"
proof (cases data)
  case None
  then show ?thesis by (simp add: onmessage_def)
next
  case (Some m)
  show ?thesis
  proof (cases m)
    case (MsgUpdate l f)
    then show ?thesis
      using Some cleared_updateAllSeries [of l f s]
      by (cases "updateAllSeries l f s") (simp_all add: onmessage_def)
  next
    case (MsgDelete acts r)
    then show ?thesis
      using Some cleared_store_acts [of acts "do_effect DestroyDb s"]
      by (simp add: onmessage_def Let_def split: option.splits)
  qed (use Some in \<open>simp_all add: onmessage_def\<close>)
qed

lemma cleared_onUpdateError:
  "cleared_before_each_step (effects (onUpdateError ser p now s)) =
   cleared_before_each_step (effects s)"
  by (simp add: onUpdateError_def Let_def doDbStateNotification_effects
        cleared_before_each_step_def split: option.splits)

lemma cleared_step:
  "cleared_before_each_step (effects (step ev s)) = cleared_before_each_step (effects s)"
  by (cases ev)
     (simp_all add: cleared_onmessage cleared_runNextUpdate cleared_onUpdateError)

lemma cleared_run:
  "cleared_before_each_step (effects (run evs s)) = cleared_before_each_step (effects s)"
  unfolding run_def by (induction evs arbitrary: s) (simp_all add: cleared_step)

text \<open>
  C3. When an accepted request is forced, or supersedes a job that was forced, the
  closure it makes is forced and so is the job it puts into the slot: the flag of the
  superseded job is kept. The request calls \<^verbatim>\<open>clearCachedVersionInfo\<close> directly before
  the \<^verbatim>\<open>updateWithRetry\<close> of the kanji step, and every later call of the closure's
  completion callback that finds a job at the kanji or names step calls it again
  directly before the \<^verbatim>\<open>updateWithRetry\<close> of the next step. Over any run of events,
  every step started with the callbacks of a forced closure comes directly after a
  call of \<^verbatim>\<open>clearCachedVersionInfo\<close>.
\<close>

theorem forced_cycle_clears_cache:
  assumes "dbIsInitialized s"
    and "case currentUpdate s of None \<Rightarrow> True
         | Some cu \<Rightarrow> \<not> (lang cu = l \<and> (forceUpdate cu \<or> \<not> f))"
    and "f \<or> (case currentUpdate s of None \<Rightarrow> False | Some cu \<Rightarrow> forceUpdate cu)"
    and "cleared_before_each_step (effects s)"
    and "currentUpdate t = Some cu'" and "series cu' = Kanji \<or> series cu' = Names"
  shows
    "(let c = \<lparr>c_lang = l, c_forceUpdate = f,
               c_wasForcedUpdate =
                 (case currentUpdate s of None \<Rightarrow> False | Some cu \<Rightarrow> forceUpdate cu)\<rparr>;
          s1 = step (Message (Some (MsgUpdate l f))) s;
          next_series = (if series cu' = Kanji then Names else Words);
          t' = step (UpdateCompleteCallback c) t
      in forced c \<and>
         currentUpdate s1 = Some \<lparr>lang = l, series = Kanji, forceUpdate = True\<rparr> \<and>
         effects s1 =
           effects (cancelUpdate s) @ [ClearCachedVersionInfo, UpdateWithRetry Kanji l c] \<and>
         currentUpdate t' = Some (cu'\<lparr>series := next_series\<rparr>) \<and>
         effects t' =
           effects (doDbStateNotification
             (postMessage (LeaveBreadcrumb (SuccessfullyUpdated (series cu')))
                (t\<lparr>lastUpdateError := None\<rparr>))) @
           [ClearCachedVersionInfo, UpdateWithRetry next_series l c] \<and>
         cleared_before_each_step (effects (run evs s)))"
proof -
  define c where "c = \<lparr>c_lang = l, c_forceUpdate = f,
               c_wasForcedUpdate =
                 (case currentUpdate s of None \<Rightarrow> False | Some cu \<Rightarrow> forceUpdate cu)\<rparr>"
  have fc: "forced c" and l: "c_lang c = l"
    using assms(3) by (auto simp: c_def forced_def)
  have s1: "step (Message (Some (MsgUpdate l f))) s =
      startStep c \<lparr>lang = l, series = Kanji, forceUpdate = forced c\<rparr> (cancelUpdate s)"
    using updateAllSeries_accepted [OF assms(1,2)]
    by (simp add: onmessage_def Let_def c_def)
  have t': "step (UpdateCompleteCallback c) t =
      startStep c (cu'\<lparr>series := (if series cu' = Kanji then Names else Words)\<rparr>)
        (doDbStateNotification
           (postMessage (LeaveBreadcrumb (SuccessfullyUpdated (series cu')))
              (t\<lparr>lastUpdateError := None\<rparr>)))"
    using assms(5,6) by (auto simp: runNextUpdate_advance Let_def)
  show ?thesis
    unfolding Let_def c_def [symmetric] s1 t'
    using fc assms(4) by (simp add: startStep_effects l cleared_run)
qed

theorem forced_cycle_clears_cache_witness:
  "dbIsInitialized example_running \<and>
   (case currentUpdate example_running of
      None \<Rightarrow> True
    | Some cu \<Rightarrow> \<not> (lang cu = ''fr'' \<and> (forceUpdate cu \<or> \<not> False))) \<and>
   (False \<or> (case currentUpdate example_running of
                None \<Rightarrow> False | Some cu \<Rightarrow> forceUpdate cu)) \<and>
   cleared_before_each_step (effects example_running) \<and>
   (let c = \<lparr>c_lang = ''fr'', c_forceUpdate = False, c_wasForcedUpdate = True\<rparr>;
        s1 = step (Message (Some (MsgUpdate ''fr'' False))) example_running;
        s2 = step (UpdateCompleteCallback c) s1
    in currentUpdate s1 = Some \<lparr>lang = ''fr'', series = Kanji, forceUpdate = True\<rparr> \<and>
       series (the (currentUpdate s1)) = Kanji \<and>
       effects s1 =
         [CancelUpdateWithRetry Names, ClearCachedVersionInfo, UpdateWithRetry Kanji ''fr'' c] \<and>
       currentUpdate s2 = Some \<lparr>lang = ''fr'', series = Names, forceUpdate = True\<rparr> \<and>
       store_calls (effects s2) =
         [CancelUpdateWithRetry Names, ClearCachedVersionInfo, UpdateWithRetry Kanji ''fr'' c,
          ClearCachedVersionInfo, UpdateWithRetry Names ''fr'' c] \<and>
       cleared_before_each_step (effects (run [UpdateCompleteCallback c] s1)))"
proof -
  define c where "c = \<lparr>c_lang = ''fr'', c_forceUpdate = False, c_wasForcedUpdate = True\<rparr>"
  define s1 where "s1 = step (Message (Some (MsgUpdate ''fr'' False))) example_running"
  define kj where "kj = \<lparr>lang = ''fr'', series = Kanji, forceUpdate = True\<rparr>"
  have h1: "dbIsInitialized example_running"
    by (simp add: example_running_def example_idle_def)
  have h2: "case currentUpdate example_running of
      None \<Rightarrow> True
    | Some cu \<Rightarrow> \<not> (lang cu = ''fr'' \<and> (forceUpdate cu \<or> \<not> False))"
    by (simp add: example_running_def example_job_def)
  have h3: "False \<or> (case currentUpdate example_running of
                None \<Rightarrow> False | Some cu \<Rightarrow> forceUpdate cu)"
    by (simp add: example_running_def example_job_def)
  have h4: "cleared_before_each_step (effects example_running)"
    by (simp add: example_running_def example_idle_def cleared_before_each_step_def)
  have e: "currentUpdate example_running = Some example_job" "forceUpdate example_job"
    "effects (cancelUpdate example_running) = [CancelUpdateWithRetry Names]"
    by (simp_all add: example_running_def example_idle_def example_job_def cancelUpdate_def)
  have a: "currentUpdate s1 = Some kj \<and>
      effects s1 = [CancelUpdateWithRetry Names, ClearCachedVersionInfo,
                    UpdateWithRetry Kanji ''fr'' c]"
    using forced_cycle_clears_cache [OF h1 h2 h3 h4, of example_running example_job "[]"]
    by (simp add: Let_def e example_job_def c_def s1_def kj_def)
  then have g1: "currentUpdate s1 = Some kj" and g2: "series kj = Kanji \<or> series kj = Names"
    and g3: "cleared_before_each_step (effects s1)"
    by (simp_all add: kj_def cleared_before_each_step_def)
  have g0: "dbIsInitialized s1"
    using h1 updateAllSeries_accepted [OF h1 h2]
    by (simp add: s1_def onmessage_def Let_def)
  have b: "currentUpdate (step (UpdateCompleteCallback c) s1) =
        Some \<lparr>lang = ''fr'', series = Names, forceUpdate = True\<rparr> \<and>
      store_calls (effects (step (UpdateCompleteCallback c) s1)) =
        [CancelUpdateWithRetry Names, ClearCachedVersionInfo, UpdateWithRetry Kanji ''fr'' c,
         ClearCachedVersionInfo, UpdateWithRetry Names ''fr'' c] \<and>
      cleared_before_each_step (effects (run [UpdateCompleteCallback c] s1))"
    using forced_cycle_clears_cache [OF h1 h2 h3 h4 g1 g2, of "[]"]
      cleared_run [of "[UpdateCompleteCallback c]" s1] g3 a
    by (simp add: Let_def e c_def [symmetric] kj_def)
  from a b have "let c = \<lparr>c_lang = ''fr'', c_forceUpdate = False, c_wasForcedUpdate = True\<rparr>;
        s1 = step (Message (Some (MsgUpdate ''fr'' False))) example_running;
        s2 = step (UpdateCompleteCallback c) s1
    in currentUpdate s1 = Some \<lparr>lang = ''fr'', series = Kanji, forceUpdate = True\<rparr> \<and>
       series (the (currentUpdate s1)) = Kanji \<and>
       effects s1 =
         [CancelUpdateWithRetry Names, ClearCachedVersionInfo, UpdateWithRetry Kanji ''fr'' c] \<and>
       currentUpdate s2 = Some \<lparr>lang = ''fr'', series = Names, forceUpdate = True\<rparr> \<and>
       store_calls (effects s2) =
         [CancelUpdateWithRetry Names, ClearCachedVersionInfo, UpdateWithRetry Kanji ''fr'' c,
          ClearCachedVersionInfo, UpdateWithRetry Names ''fr'' c] \<and>
       cleared_before_each_step (effects (run [UpdateCompleteCallback c] s1))"
    unfolding Let_def c_def [symmetric] s1_def [symmetric] by (simp add: kj_def)
  with h1 h2 h3 h4 show ?thesis by blast
qed

end
